theory Spec2Isabelle
  imports Complex_Main "HOL-Library.Word"
begin

section \<open>JavaScript values\<close>

text \<open>
  A JavaScript string is a sequence of 16-bit code units. Source literals are written
  through \<open>js\<close>, which maps each character of an Isabelle string (a byte, read as a
  Latin-1 code point) to its code unit.
\<close>

type_synonym jsstring = "16 word list"

definition js :: "string \<Rightarrow> jsstring" where
  "js s = map (\<lambda>c. of_nat (of_char c)) s"

text \<open>
  \<open>String.prototype.trim\<close> removes the WhiteSpace and LineTerminator code points of
  ECMAScript from both ends.
\<close>

definition isWhiteSpace :: "16 word \<Rightarrow> bool" where
  "isWhiteSpace c =
     (c \<in> set [0x09, 0x0A, 0x0B, 0x0C, 0x0D, 0x20, 0xA0, 0x1680,
                0x2028, 0x2029, 0x202F, 0x205F, 0x3000, 0xFEFF]
      \<or> (0x2000 \<le> c \<and> c \<le> 0x200A))"

definition trim :: "jsstring \<Rightarrow> jsstring" where
  "trim s = rev (dropWhile isWhiteSpace (rev (dropWhile isWhiteSpace s)))"

text \<open>
  A number is a finite double, kept as the real number it denotes, or NaN (\<open>None\<close>).
  The infinities are not modelled.
\<close>

type_synonym jsnum = "real option"

text \<open>
  The value of a property of the parsed JSON body: absent (\<open>undefined\<close>), \<open>null\<close>,
  a boolean, a number or a string. Properties holding arrays or objects are not
  modelled: what happens to them is decided by the database driver.
\<close>

datatype jsval = JUndefined | JNull | JBool bool | JNum real | JStr jsstring

text \<open>\<open>req.body\<close>: property name to value, \<open>JUndefined\<close> for a property that is absent.\<close>

type_synonym body = "string \<Rightarrow> jsval"

text \<open>
  \<open>Number(v)\<close>. The conversion of a string to a number (StringToNumber of ECMAScript)
  is a parameter \<open>S2N\<close> of the model.
\<close>

fun js_Number :: "(jsstring \<Rightarrow> jsnum) \<Rightarrow> jsval \<Rightarrow> jsnum" where
  "js_Number S2N JUndefined = None"
| "js_Number S2N JNull = Some 0"
| "js_Number S2N (JBool b) = Some (if b then 1 else 0)"
| "js_Number S2N (JNum r) = Some r"
| "js_Number S2N (JStr s) = S2N s"

text \<open>Truthiness, and \<open>v || null\<close>.\<close>

fun truthy :: "jsval \<Rightarrow> bool" where
  "truthy JUndefined = False"
| "truthy JNull = False"
| "truthy (JBool b) = b"
| "truthy (JNum r) = (r \<noteq> 0)"
| "truthy (JStr s) = (s \<noteq> [])"

definition or_null :: "jsval \<Rightarrow> jsval" where
  "or_null v = (if truthy v then v else JNull)"

text \<open>
  The exceptions the handlers can meet: a method call on a value that has no such method,
  the driver refusing to bind a value, the two constraint failures of the table, and
  \<open>toISOString\<close> on an invalid date.
\<close>

datatype exn =
    TypeError_not_a_function
  | TypeError_cannot_bind
  | SqliteError_NOT_NULL
  | SqliteError_UNIQUE
  | RangeError_invalid_time

text \<open>\<open>String(e.message).includes("UNIQUE")\<close>: only the UNIQUE constraint's message has it.\<close>

fun message_includes_UNIQUE :: "exn \<Rightarrow> bool" where
  "message_includes_UNIQUE SqliteError_UNIQUE = True"
| "message_includes_UNIQUE _ = False"

text \<open>A thrown exception ends the evaluation of everything after it.\<close>

definition bind_exn :: "exn + 'a \<Rightarrow> ('a \<Rightarrow> exn + 'b) \<Rightarrow> exn + 'b" where
  "bind_exn m f = (case m of Inl x \<Rightarrow> Inl x | Inr v \<Rightarrow> f v)"

text \<open>\<open>v.trim()\<close>: only a string has the method.\<close>

fun call_trim :: "jsval \<Rightarrow> exn + jsstring" where
  "call_trim (JStr s) = Inr (trim s)"
| "call_trim _ = Inl TypeError_not_a_function"

section \<open>The feedback table\<close>

text \<open>
  A value of a nullable TEXT column. The driver binds \<open>null\<close>, strings and numbers and
  throws a TypeError on a boolean; a number bound to a TEXT column is kept as its
  decimal rendering, which the model keeps as the number.
\<close>

datatype sqlval = SNull | SText jsstring | SNumber real

fun bind_value :: "jsval \<Rightarrow> exn + sqlval" where
  "bind_value JUndefined = Inr SNull"
| "bind_value JNull = Inr SNull"
| "bind_value (JStr s) = Inr (SText s)"
| "bind_value (JNum r) = Inr (SNumber r)"
| "bind_value (JBool b) = Inl TypeError_cannot_bind"

record feedback =
  fb_id :: nat
  created_at :: jsstring
  email :: jsstring
  client_name :: jsstring
  project :: jsstring
  reactivity :: real
  reactivity_suggestion :: sqlval
  deadlines :: real
  deadlines_suggestion :: sqlval
  deliverables :: real
  deliverables_suggestion :: sqlval
  professionalism :: real
  professionalism_suggestion :: sqlval
  global_comment :: sqlval

type_synonym store = "feedback list"

definition pair_of :: "feedback \<Rightarrow> jsstring \<times> jsstring" where
  "pair_of r = (client_name r, project r)"

definition next_id :: "store \<Rightarrow> nat" where
  "next_id st = Suc (fold max (map fb_id st) 0)"

text \<open>
  \<open>stmt.run\<close> with the thirteen arguments of the handler, in the order of the INSERT.
  The driver binds the parameters first; NaN is bound as NULL. The engine then checks
  the NOT NULL columns and after them \<open>UNIQUE(client_name, project)\<close>, and appends the
  row with the next id when both hold.
\<close>

definition not_null :: "jsnum \<Rightarrow> exn + real" where
  "not_null n = (case n of None \<Rightarrow> Inl SqliteError_NOT_NULL | Some v \<Rightarrow> Inr v)"

definition stmt_run ::
  "jsstring \<Rightarrow> jsstring \<Rightarrow> jsstring \<Rightarrow> jsstring \<Rightarrow>
   jsnum \<Rightarrow> jsval \<Rightarrow> jsnum \<Rightarrow> jsval \<Rightarrow> jsnum \<Rightarrow> jsval \<Rightarrow> jsnum \<Rightarrow> jsval \<Rightarrow> jsval \<Rightarrow>
   store \<Rightarrow> exn + store" where
  "stmt_run now e c p r1 s1 r2 s2 r3 s3 r4 s4 g st =
    bind_exn (bind_value s1) (\<lambda>b1.
    bind_exn (bind_value s2) (\<lambda>b2.
    bind_exn (bind_value s3) (\<lambda>b3.
    bind_exn (bind_value s4) (\<lambda>b4.
    bind_exn (bind_value g) (\<lambda>bg.
    bind_exn (not_null r1) (\<lambda>v1.
    bind_exn (not_null r2) (\<lambda>v2.
    bind_exn (not_null r3) (\<lambda>v3.
    bind_exn (not_null r4) (\<lambda>v4.
      if (c, p) \<in> set (map pair_of st) then Inl SqliteError_UNIQUE
      else Inr (st @ [\<lparr>fb_id = next_id st, created_at = now, email = e,
                       client_name = c, project = p,
                       reactivity = v1, reactivity_suggestion = b1,
                       deadlines = v2, deadlines_suggestion = b2,
                       deliverables = v3, deliverables_suggestion = b3,
                       professionalism = v4, professionalism_suggestion = b4,
                       global_comment = bg\<rparr>]))))))))))"

section \<open>POST /api/feedback\<close>

datatype response = Ok200 | Err400 string | Err409 | Err500 exn

definition required :: "string list" where
  "required = [''email'', ''client_name'', ''project'',
               ''reactivity'', ''deadlines'', ''deliverables'', ''professionalism'']"

text \<open>\<open>body[k] === undefined || body[k] === null || body[k] === ""\<close>\<close>

definition is_missing :: "jsval \<Rightarrow> bool" where
  "is_missing v = (v = JUndefined \<or> v = JNull \<or> v = JStr [])"

text \<open>The loop over \<open>required\<close>: the first key whose value is missing.\<close>

fun first_missing :: "body \<Rightarrow> string list \<Rightarrow> string option" where
  "first_missing b [] = None"
| "first_missing b (k # ks) = (if is_missing (b k) then Some k else first_missing b ks)"

text \<open>
  The \<open>try\<close> block: the arguments are evaluated from left to right, so the three \<open>trim\<close>
  calls come first, and then \<open>stmt.run\<close> is called. \<open>now\<close> is the text that
  \<open>new Date().toISOString()\<close> gives when the request is handled.
\<close>

definition try_insert :: "(jsstring \<Rightarrow> jsnum) \<Rightarrow> jsstring \<Rightarrow> body \<Rightarrow> store \<Rightarrow> exn + store" where
  "try_insert S2N now b st =
    bind_exn (call_trim (b ''email'')) (\<lambda>e.
    bind_exn (call_trim (b ''client_name'')) (\<lambda>c.
    bind_exn (call_trim (b ''project'')) (\<lambda>p.
      stmt_run now e c p
        (js_Number S2N (b ''reactivity'')) (or_null (b ''reactivity_suggestion''))
        (js_Number S2N (b ''deadlines'')) (or_null (b ''deadlines_suggestion''))
        (js_Number S2N (b ''deliverables'')) (or_null (b ''deliverables_suggestion''))
        (js_Number S2N (b ''professionalism'')) (or_null (b ''professionalism_suggestion''))
        (or_null (b ''global_comment'')) st)))"

definition post_feedback ::
  "(jsstring \<Rightarrow> jsnum) \<Rightarrow> jsstring \<Rightarrow> body \<Rightarrow> store \<Rightarrow> response \<times> store" where
  "post_feedback S2N now b st =
    (case first_missing b required of
       Some k \<Rightarrow> (Err400 k, st)
     | None \<Rightarrow>
        (case try_insert S2N now b st of
           Inr st' \<Rightarrow> (Ok200, st')
         | Inl e \<Rightarrow> (if message_includes_UNIQUE e then (Err409, st) else (Err500 e, st))))"

text \<open>A sequence of submissions, each with the time at which it is handled.\<close>

fun run_posts :: "(jsstring \<Rightarrow> jsnum) \<Rightarrow> (jsstring \<times> body) list \<Rightarrow> store \<Rightarrow> store" where
  "run_posts S2N [] st = st"
| "run_posts S2N ((now, b) # reqs) st = run_posts S2N reqs (snd (post_feedback S2N now b st))"

section \<open>monthRange\<close>

text \<open>\<open>s.split("-")\<close>: the pieces between the hyphens; never the empty list.\<close>

fun split_dash :: "jsstring \<Rightarrow> jsstring list" where
  "split_dash [] = [[]]"
| "split_dash (c # cs) =
     (if c = 0x2D then [] # split_dash cs
      else (case split_dash cs of [] \<Rightarrow> [[c]] | p # ps \<Rightarrow> (c # p) # ps))"

text \<open>
  An element of the destructured array \<open>[y, m]\<close>, as the number it is used as: an
  element that is not there is \<open>undefined\<close>, which is NaN in arithmetic.
\<close>

fun element :: "jsnum list \<Rightarrow> nat \<Rightarrow> jsnum" where
  "element [] i = None"
| "element (x # xs) 0 = x"
| "element (x # xs) (Suc i) = element xs i"

text \<open>ToIntegerOrInfinity on a finite number: truncation towards zero.\<close>

definition trunc :: "real \<Rightarrow> int" where
  "trunc r = (if 0 \<le> r then \<lfloor>r\<rfloor> else \<lceil>r\<rceil>)"

text \<open>
  \<open>new Date(Date.UTC(y, mo, 1, 0, 0, 0))\<close> is the first instant of a month, or an invalid
  date. The model keeps a valid one as its year and its month from 0 to 11. Years 0 to 99
  mean 1900 to 1999, the month carries into the year, and the result is valid when it lies
  within 100 000 000 days of 1970-01-01, that is from -271821-04-20 to 275760-09-13.
  (The pieces of a string split at its hyphens have no minus sign, so the year and the
  month are never negative numbers, apart from the month index \<open>m - 1\<close>.)
\<close>

type_synonym month_start = "int \<times> int"

definition in_time_range :: "int \<Rightarrow> int \<Rightarrow> bool" where
  "in_time_range ym mn =
     ((- 271821 < ym \<or> (ym = - 271821 \<and> 4 \<le> mn)) \<and>
      (ym < 275760 \<or> (ym = 275760 \<and> mn \<le> 8)))"

definition Date_UTC :: "jsnum \<Rightarrow> jsnum \<Rightarrow> month_start option" where
  "Date_UTC y mo =
     (case y of None \<Rightarrow> None | Some yv \<Rightarrow>
       (case mo of None \<Rightarrow> None | Some mv \<Rightarrow>
         (let yi = trunc yv;
              yr = (if 0 \<le> yi \<and> yi \<le> 99 then 1900 + yi else yi);
              m = trunc mv;
              ym = yr + m div 12;
              mn = m mod 12
          in if in_time_range ym mn then Some (ym, mn) else None)))"

text \<open>
  \<open>toISOString\<close> writes four digits for the years 0 to 9999, a sign and six digits for
  the others; it throws a RangeError on an invalid date.
\<close>

definition digit :: "nat \<Rightarrow> 16 word" where
  "digit d = of_nat (48 + d)"

fun pad :: "nat \<Rightarrow> nat \<Rightarrow> jsstring" where
  "pad 0 n = []"
| "pad (Suc w) n = pad w (n div 10) @ [digit (n mod 10)]"

definition iso_year :: "int \<Rightarrow> jsstring" where
  "iso_year y =
     (if 0 \<le> y \<and> y \<le> 9999 then pad 4 (nat y)
      else (if y < 0 then js ''-'' else js ''+'') @ pad 6 (nat \<bar>y\<bar>))"

text \<open>
  The text \<open>YYYY-MM-DDTHH:mm:ss.sssZ\<close> of an instant, from its UTC year, month (1 to 12),
  day, hour, minute, second and millisecond.
\<close>

definition iso_text :: "int \<Rightarrow> nat \<Rightarrow> nat \<Rightarrow> nat \<Rightarrow> nat \<Rightarrow> nat \<Rightarrow> nat \<Rightarrow> jsstring" where
  "iso_text y mo d h mi s ms =
     iso_year y @ js ''-'' @ pad 2 mo @ js ''-'' @ pad 2 d @ js ''T'' @ pad 2 h @ js '':''
       @ pad 2 mi @ js '':'' @ pad 2 s @ js ''.'' @ pad 3 ms @ js ''Z''"

fun toISOString :: "month_start option \<Rightarrow> exn + jsstring" where
  "toISOString None = Inl RangeError_invalid_time"
| "toISOString (Some (y, mn)) = Inr (iso_text y (nat mn + 1) 1 0 0 0 0)"

definition monthRange :: "(jsstring \<Rightarrow> jsnum) \<Rightarrow> jsstring \<Rightarrow> exn + (jsstring \<times> jsstring)" where
  "monthRange S2N yyyyMm =
     (let parts = map S2N (split_dash yyyyMm);
          y = element parts 0;
          m = element parts 1;
          start = Date_UTC y (map_option (\<lambda>v. v - 1) m);
          end' = Date_UTC y m
      in bind_exn (toISOString start) (\<lambda>s.
         bind_exn (toISOString end') (\<lambda>e. Inr (s, e))))"

section \<open>GET /api/stats\<close>

text \<open>
  The comparison of two TEXT values: code unit by code unit, a proper prefix first.
  (The values compared here are ASCII.)
\<close>

fun text_less :: "jsstring \<Rightarrow> jsstring \<Rightarrow> bool" where
  "text_less [] [] = False"
| "text_less [] (y # ys) = True"
| "text_less (x # xs) [] = False"
| "text_less (x # xs) (y # ys) = (x < y \<or> (x = y \<and> text_less xs ys))"

definition text_le :: "jsstring \<Rightarrow> jsstring \<Rightarrow> bool" where
  "text_le a b = (\<not> text_less b a)"

record project_stats =
  ps_project :: jsstring
  responses :: nat
  avg_reactivity :: real
  avg_deadlines :: real
  avg_deliverables :: real
  avg_professionalism :: real
  avg_total :: real

text \<open>\<open>WHERE created_at >= ? AND created_at < ?\<close>\<close>

definition in_range :: "jsstring \<Rightarrow> jsstring \<Rightarrow> store \<Rightarrow> feedback list" where
  "in_range start end' st =
     filter (\<lambda>r. text_le start (created_at r) \<and> text_less (created_at r) end') st"

text \<open>\<open>GROUP BY project\<close>: the projects of the selected rows, each once.\<close>

fun group_keys :: "feedback list \<Rightarrow> jsstring list" where
  "group_keys [] = []"
| "group_keys (r # rs) = project r # filter (\<lambda>p. p \<noteq> project r) (group_keys rs)"

definition group_of :: "jsstring \<Rightarrow> feedback list \<Rightarrow> feedback list" where
  "group_of p rows = filter (\<lambda>r. project r = p) rows"

text \<open>
  The engine computes in doubles. A result is the double nearest to the exact one, the
  even one of two that are equally near: \<open>binade\<close> is the exponent \<open>e\<close> with
  \<open>2 ^ e \<le> x < 2 ^ (e + 1)\<close>, held between -1022 and 1023, the doubles of that size
  are the multiples of \<open>2 ^ (e - 52)\<close>, and \<open>double_round\<close> takes the nearest multiple.
  Overflow to an infinity is not modelled.
\<close>

primrec halvings :: "nat \<Rightarrow> real \<Rightarrow> nat" where
  "halvings 0 x = 0"
| "halvings (Suc n) x = (if x < 2 then 0 else Suc (halvings n (x / 2)))"

primrec doublings :: "nat \<Rightarrow> real \<Rightarrow> nat" where
  "doublings 0 x = 0"
| "doublings (Suc n) x = (if 1 \<le> x then 0 else Suc (doublings n (2 * x)))"

definition binade :: "real \<Rightarrow> int" where
  "binade x = (if 1 \<le> x then int (halvings 1023 x) else - int (doublings 1022 x))"

definition pow2 :: "int \<Rightarrow> real" where
  "pow2 k = (if 0 \<le> k then 2 ^ nat k else 1 / 2 ^ nat (- k))"

definition round_half_even :: "real \<Rightarrow> int" where
  "round_half_even q =
     (let f = \<lfloor>q\<rfloor>; r = q - of_int f
      in if r < 1 / 2 then f else if 1 / 2 < r then f + 1 else if even f then f else f + 1)"

definition double_round :: "real \<Rightarrow> real" where
  "double_round x =
     (if x = 0 then 0
      else (let u = pow2 (binade \<bar>x\<bar> - 52) in of_int (round_half_even (x / u)) * u))"

text \<open>The division of two doubles.\<close>

definition fdiv :: "real \<Rightarrow> real \<Rightarrow> real" where
  "fdiv a b = double_round (a / b)"

text \<open>
  \<open>AVG\<close>: the sum of the values, as a double, divided by their number. The engine adds
  whole numbers exactly and other numbers with a running correction; the model adds
  exactly and rounds the sum once, which is the same for whole numbers and for quarters
  of them while the sum is exact in a double.
\<close>

definition AVG :: "real list \<Rightarrow> real" where
  "AVG xs = fdiv (double_round (sum_list xs)) (real (length xs))"

text \<open>\<open>(reactivity+deadlines+deliverables+professionalism)/4.0\<close> of one row.\<close>

definition score :: "feedback \<Rightarrow> real" where
  "score r =
     fdiv (double_round (reactivity r + deadlines r + deliverables r + professionalism r)) 4"

definition aggregate :: "jsstring \<Rightarrow> feedback list \<Rightarrow> project_stats" where
  "aggregate p g =
     \<lparr>ps_project = p,
      responses = length g,
      avg_reactivity = AVG (map reactivity g),
      avg_deadlines = AVG (map deadlines g),
      avg_deliverables = AVG (map deliverables g),
      avg_professionalism = AVG (map professionalism g),
      avg_total = AVG (map score g)\<rparr>"

text \<open>
  The whole query, with \<open>ORDER BY avg_total ASC\<close> as a sort on that key. The order the
  engine gives to projects of equal \<open>avg_total\<close> is its own; nothing below depends on it.
\<close>

definition select_stats :: "jsstring \<Rightarrow> jsstring \<Rightarrow> store \<Rightarrow> project_stats list" where
  "select_stats start end' st =
     (let rows = in_range start end' st
      in sort_key avg_total (map (\<lambda>p. aggregate p (group_of p rows)) (group_keys rows)))"

text \<open>The four recommendation strings.\<close>

definition reco_reactivity :: jsstring where
  "reco_reactivity = js (''R'' @ [CHR 0xE9] @ ''activit'' @ [CHR 0xE9] @ '': d'' @ [CHR 0xE9]
     @ ''finir SLA (ex: r'' @ [CHR 0xE9] @ ''ponse < 24h), point hebdo, canal unique.'')"

definition reco_deadlines :: jsstring where
  "reco_deadlines = js (''D'' @ [CHR 0xE9] @ ''lais: jalons, buffer, suivi r'' @ [CHR 0xE9]
     @ ''gulier, gestion risques.'')"

definition reco_deliverables :: jsstring where
  "reco_deliverables = js (''Livrables: checklist qualit'' @ [CHR 0xE9]
     @ '', revue interne, templates.'')"

definition reco_professionalism :: jsstring where
  "reco_professionalism =
     js ''Pro/Innovation: REX mensuel, formation, partage bonnes pratiques.''"

definition threshold :: real where
  "threshold = 4"

text \<open>The array \<open>a\<close> of one row: four tests, each pushing its string.\<close>

definition push_if :: "bool \<Rightarrow> jsstring \<Rightarrow> jsstring list \<Rightarrow> jsstring list" where
  "push_if c x a = (if c then a @ [x] else a)"

definition recommendations_for :: "project_stats \<Rightarrow> jsstring list" where
  "recommendations_for r =
     push_if (avg_professionalism r < threshold) reco_professionalism
      (push_if (avg_deliverables r < threshold) reco_deliverables
        (push_if (avg_deadlines r < threshold) reco_deadlines
          (push_if (avg_reactivity r < threshold) reco_reactivity [])))"

record action =
  ap_project :: jsstring
  recommendations :: "jsstring list"

text \<open>The loop over the rows, with the array \<open>actions\<close> as accumulator.\<close>

fun action_loop :: "project_stats list \<Rightarrow> action list \<Rightarrow> action list" where
  "action_loop [] actions = actions"
| "action_loop (r # rs) actions =
     (let a = recommendations_for r
      in action_loop rs
           (if a \<noteq> [] then actions @ [\<lparr>ap_project = ps_project r, recommendations = a\<rparr>]
            else actions))"

record report =
  rp_month :: jsstring
  rp_start :: jsstring
  rp_end :: jsstring
  projects :: "project_stats list"
  action_plan :: "action list"

text \<open>
  \<open>req.query.month\<close>: absent, a string, or an array or object (a repeated or bracketed
  key). The handler has no \<open>try\<close>: an exception leaves it uncaught, and the framework
  answers 500.
\<close>

datatype query_value = QMissing | QString jsstring | QNested

datatype stats_outcome = Stats400 | Stats200 report | Uncaught exn

definition get_stats :: "(jsstring \<Rightarrow> jsnum) \<Rightarrow> store \<Rightarrow> query_value \<Rightarrow> stats_outcome" where
  "get_stats S2N st q =
     (case q of
        QMissing \<Rightarrow> Stats400
      | QNested \<Rightarrow> Uncaught TypeError_not_a_function
      | QString month \<Rightarrow>
          (if month = [] then Stats400
           else (case monthRange S2N month of
                   Inl e \<Rightarrow> Uncaught e
                 | Inr (start, end') \<Rightarrow>
                     (let rows = select_stats start end' st
                      in Stats200 \<lparr>rp_month = month, rp_start = start, rp_end = end',
                                   projects = rows, action_plan = action_loop rows []\<rparr>))))"

text \<open>
  StringToNumber on the strings of decimal digits, with white space around them allowed
  and the empty string read as 0, and on the strings that are no numeric literal at all,
  which are NaN. It stands for the parameter \<open>S2N\<close> where a concrete request is evaluated,
  and is applied to such strings only; the other numeric literals (signs, fractions,
  exponents, other bases) are not treated and come out as NaN here.
\<close>

definition is_digit :: "16 word \<Rightarrow> bool" where
  "is_digit c = (0x30 \<le> c \<and> c \<le> 0x39)"

definition decimal_value :: "jsstring \<Rightarrow> nat" where
  "decimal_value s = foldl (\<lambda>n c. 10 * n + (unat c - 48)) 0 s"

definition decimal_S2N :: "jsstring \<Rightarrow> jsnum" where
  "decimal_S2N s =
     (let t = trim s
      in if list_all is_digit t then Some (real (decimal_value t)) else None)"

section \<open>Notions used in the statements\<close>

text \<open>The five optional properties of the body, each with the column it is stored in.\<close>

definition optional_columns :: "(string \<times> (feedback \<Rightarrow> sqlval)) list" where
  "optional_columns =
     [(''reactivity_suggestion'', reactivity_suggestion),
      (''deadlines_suggestion'', deadlines_suggestion),
      (''deliverables_suggestion'', deliverables_suggestion),
      (''professionalism_suggestion'', professionalism_suggestion),
      (''global_comment'', global_comment)]"

text \<open>The submission of the specification's example, and variations of it.\<close>

definition example_body :: body where
  "example_body =
     (\<lambda>k. JUndefined)
       (''email'' := JStr (js ''a@x.com''),
        ''client_name'' := JStr (js ''Acme''),
        ''project'' := JStr (js ''Website''),
        ''reactivity'' := JNum 2,
        ''deadlines'' := JNum 5,
        ''deliverables'' := JNum 5,
        ''professionalism'' := JNum 5)"

definition example_time :: jsstring where
  "example_time = js ''2026-01-15T10:30:00.000Z''"

definition blank_name_body :: body where
  "blank_name_body = example_body(''client_name'' := JStr (js ''   ''))"

definition no_project_body :: body where
  "no_project_body = example_body(''project'' := JNull)"

definition resubmission_body :: body where
  "resubmission_body =
     example_body(''email'' := JStr (js ''b@x.com''), ''client_name'' := JStr (js ''  Acme ''))"

definition no_email_body :: body where
  "no_email_body = example_body(''email'' := JUndefined)"

definition bad_rating_body :: body where
  "bad_rating_body = example_body(''reactivity'' := JStr (js ''abc''))"

definition suggestion_body :: body where
  "suggestion_body =
     example_body(''reactivity_suggestion'' := JStr [],
                  ''deadlines_suggestion'' := JStr (js ''  more updates ''))"

text \<open>The mean of a list of numbers in exact arithmetic.\<close>

definition mean :: "real list \<Rightarrow> real" where
  "mean xs = sum_list xs / real (length xs)"

text \<open>
  The exact mean of the raw total scores of a list of responses, a total being the sum of
  the four ratings of one response.
\<close>

definition mean_raw_total :: "feedback list \<Rightarrow> real" where
  "mean_raw_total g =
     mean (map (\<lambda>r. reactivity r + deadlines r + deliverables r + professionalism r) g)"

text \<open>
  Responses whose ratings are whole numbers, and the sum of the absolute values of all
  their ratings.
\<close>

definition is_whole :: "real \<Rightarrow> bool" where
  "is_whole x = (of_int \<lfloor>x\<rfloor> = x)"

definition whole_ratings :: "feedback list \<Rightarrow> bool" where
  "whole_ratings g =
     list_all (\<lambda>r. is_whole (reactivity r) \<and> is_whole (deadlines r)
                  \<and> is_whole (deliverables r) \<and> is_whole (professionalism r)) g"

definition rating_mass :: "feedback list \<Rightarrow> real" where
  "rating_mass g =
     sum_list (map (\<lambda>r. \<bar>reactivity r\<bar> + \<bar>deadlines r\<bar> + \<bar>deliverables r\<bar>
                        + \<bar>professionalism r\<bar>) g)"

text \<open>The records behind one row of a report: those of the interval with the row's project.\<close>

definition responses_of :: "report \<Rightarrow> store \<Rightarrow> project_stats \<Rightarrow> feedback list" where
  "responses_of rp st p = group_of (ps_project p) (in_range (rp_start rp) (rp_end rp) st)"

text \<open>The recommendations that the action plan of a report lists for a project.\<close>

definition plan_recommendations :: "report \<Rightarrow> jsstring \<Rightarrow> jsstring list" where
  "plan_recommendations rp p =
     concat (map recommendations (filter (\<lambda>a. ap_project a = p) (action_plan rp)))"

text \<open>The text \<open>toISOString\<close> gives for the first instant of month \<open>m\<close> (1 to 12) of year \<open>y\<close>.\<close>

definition first_of_month :: "int \<Rightarrow> int \<Rightarrow> jsstring" where
  "first_of_month y m = iso_text y (nat m) 1 0 0 0 0"

text \<open>The year that \<open>Date.UTC\<close> takes a whole number for: 0 to 99 stand for 1900 to 1999.\<close>

definition full_year :: "int \<Rightarrow> int" where
  "full_year y = (if 0 \<le> y \<and> y \<le> 99 then 1900 + y else y)"

text \<open>
  Four submissions: one for the project App, two for Website in January 2026 and one for
  Website in February.
\<close>

definition app_body :: body where
  "app_body =
     example_body(''project'' := JStr (js ''App''),
                  ''reactivity'' := JNum 5)"

definition second_body :: body where
  "second_body =
     example_body(''email'' := JStr (js ''g@x.com''),
                  ''client_name'' := JStr (js ''Globex''),
                  ''reactivity'' := JNum 4,
                  ''deadlines'' := JNum 4,
                  ''deliverables'' := JNum 3)"

definition february_body :: body where
  "february_body =
     example_body(''client_name'' := JStr (js ''Initech''),
                  ''reactivity'' := JNum 1,
                  ''deadlines'' := JNum 1,
                  ''deliverables'' := JNum 1,
                  ''professionalism'' := JNum 1)"

definition sample_requests :: "(jsstring \<times> body) list" where
  "sample_requests =
     [(js ''2026-01-03T09:00:00.000Z'', app_body),
      (example_time, example_body),
      (js ''2026-01-20T16:45:10.250Z'', second_body),
      (js ''2026-02-02T08:00:00.000Z'', february_body)]"

definition sample_store :: store where
  "sample_store = run_posts decimal_S2N sample_requests []"

definition website_row :: project_stats where
  "website_row =
     \<lparr>ps_project = js ''Website'', responses = 2, avg_reactivity = 3,
      avg_deadlines = 9 / 2, avg_deliverables = 4, avg_professionalism = 5,
      avg_total = 33 / 8\<rparr>"

definition app_row :: project_stats where
  "app_row =
     \<lparr>ps_project = js ''App'', responses = 1, avg_reactivity = 5,
      avg_deadlines = 5, avg_deliverables = 5, avg_professionalism = 5,
      avg_total = 5\<rparr>"

definition sample_report :: report where
  "sample_report =
     \<lparr>rp_month = js ''2026-01'',
      rp_start = js ''2026-01-01T00:00:00.000Z'',
      rp_end = js ''2026-02-01T00:00:00.000Z'',
      projects = [website_row, app_row],
      action_plan = [\<lparr>ap_project = js ''Website'', recommendations = [reco_reactivity]\<rparr>]\<rparr>"

text \<open>
  Three submissions for Website in January 2026, with ratings (1, 1, 1, 1), (1, 1, 2, 2)
  and (1, 1, 2, 2), and the report they give.
\<close>

definition rounding_requests :: "(jsstring \<times> body) list" where
  "rounding_requests =
     [(js ''2026-01-05T08:00:00.000Z'',
       example_body(''reactivity'' := JNum 1, ''deadlines'' := JNum 1,
                    ''deliverables'' := JNum 1, ''professionalism'' := JNum 1)),
      (js ''2026-01-06T08:00:00.000Z'',
       example_body(''client_name'' := JStr (js ''Globex''),
                    ''reactivity'' := JNum 1, ''deadlines'' := JNum 1,
                    ''deliverables'' := JNum 2, ''professionalism'' := JNum 2)),
      (js ''2026-01-07T08:00:00.000Z'',
       example_body(''client_name'' := JStr (js ''Initech''),
                    ''reactivity'' := JNum 1, ''deadlines'' := JNum 1,
                    ''deliverables'' := JNum 2, ''professionalism'' := JNum 2))]"

definition rounding_store :: store where
  "rounding_store = run_posts decimal_S2N rounding_requests []"

definition rounding_row :: project_stats where
  "rounding_row =
     \<lparr>ps_project = js ''Website'', responses = 3, avg_reactivity = 1,
      avg_deadlines = 1,
      avg_deliverables = 7505999378950827 / 2 ^ 52,
      avg_professionalism = 7505999378950827 / 2 ^ 52,
      avg_total = 6004799503160661 / 2 ^ 52\<rparr>"

definition rounding_report :: report where
  "rounding_report =
     \<lparr>rp_month = js ''2026-01'',
      rp_start = js ''2026-01-01T00:00:00.000Z'',
      rp_end = js ''2026-02-01T00:00:00.000Z'',
      projects = [rounding_row],
      action_plan =
        [\<lparr>ap_project = js ''Website'',
          recommendations =
            [reco_reactivity, reco_deadlines, reco_deliverables, reco_professionalism]\<rparr>]\<rparr>"

section \<open>Evaluation and auxiliary facts\<close>

lemmas post_eval = post_feedback_def required_def is_missing_def try_insert_def bind_exn_def
  stmt_run_def not_null_def or_null_def next_id_def pair_of_def

lemma bind_exn_Inr_iff: "bind_exn m f = Inr y \<longleftrightarrow> (\<exists>v. m = Inr v \<and> f v = Inr y)"
  by (cases m) (simp_all add: bind_exn_def)

lemma not_null_Inr_iff: "not_null n = Inr v \<longleftrightarrow> n = Some v"
  by (cases n) (simp_all add: not_null_def)

lemma first_missing_None: "first_missing b ks = None \<longleftrightarrow> (\<forall>k\<in>set ks. \<not> is_missing (b k))"
  by (induction ks) auto


lemma first_missing_Some: "first_missing b ks = Some k \<Longrightarrow> k \<in> set ks \<and> is_missing (b k)"
  by (induction ks) (auto split: if_splits)

lemma post_feedback_400_iff:
  "(\<exists>k. fst (post_feedback S2N now b st) = Err400 k) \<longleftrightarrow> first_missing b required \<noteq> None"
  by (auto simp: post_feedback_def split: option.splits sum.splits)

lemma stmt_run_Inr:
  assumes "stmt_run now e c p r1 s1 r2 s2 r3 s3 r4 s4 g st = Inr st'"
  shows "\<exists>r. st' = st @ [r] \<and> (c, p) \<notin> set (map pair_of st)
     \<and> created_at r = now \<and> email r = e \<and> client_name r = c \<and> project r = p
     \<and> r1 = Some (reactivity r) \<and> r2 = Some (deadlines r)
     \<and> r3 = Some (deliverables r) \<and> r4 = Some (professionalism r)
     \<and> bind_value s1 = Inr (reactivity_suggestion r)
     \<and> bind_value s2 = Inr (deadlines_suggestion r)
     \<and> bind_value s3 = Inr (deliverables_suggestion r)
     \<and> bind_value s4 = Inr (professionalism_suggestion r)
     \<and> bind_value g = Inr (global_comment r)"
  using assms unfolding stmt_run_def bind_exn_Inr_iff not_null_Inr_iff
  by (auto split: if_splits)

lemma try_insert_Inr:
  assumes "try_insert S2N now b st = Inr st'"
  shows "\<exists>r. st' = st @ [r] \<and> pair_of r \<notin> set (map pair_of st)
     \<and> created_at r = now
     \<and> call_trim (b ''email'') = Inr (email r)
     \<and> call_trim (b ''client_name'') = Inr (client_name r)
     \<and> call_trim (b ''project'') = Inr (project r)
     \<and> js_Number S2N (b ''reactivity'') = Some (reactivity r)
     \<and> js_Number S2N (b ''deadlines'') = Some (deadlines r)
     \<and> js_Number S2N (b ''deliverables'') = Some (deliverables r)
     \<and> js_Number S2N (b ''professionalism'') = Some (professionalism r)
     \<and> bind_value (or_null (b ''reactivity_suggestion'')) = Inr (reactivity_suggestion r)
     \<and> bind_value (or_null (b ''deadlines_suggestion'')) = Inr (deadlines_suggestion r)
     \<and> bind_value (or_null (b ''deliverables_suggestion'')) = Inr (deliverables_suggestion r)
     \<and> bind_value (or_null (b ''professionalism_suggestion'')) = Inr (professionalism_suggestion r)
     \<and> bind_value (or_null (b ''global_comment'')) = Inr (global_comment r)"
proof -
  from assms obtain e c p where
    t: "call_trim (b ''email'') = Inr e" "call_trim (b ''client_name'') = Inr c"
       "call_trim (b ''project'') = Inr p"
    and run: "stmt_run now e c p
        (js_Number S2N (b ''reactivity'')) (or_null (b ''reactivity_suggestion''))
        (js_Number S2N (b ''deadlines'')) (or_null (b ''deadlines_suggestion''))
        (js_Number S2N (b ''deliverables'')) (or_null (b ''deliverables_suggestion''))
        (js_Number S2N (b ''professionalism'')) (or_null (b ''professionalism_suggestion''))
        (or_null (b ''global_comment'')) st = Inr st'"
    unfolding try_insert_def bind_exn_Inr_iff by blast
  from stmt_run_Inr [OF run] t show ?thesis
    by (auto simp: pair_of_def)
qed

lemma post_feedback_Ok200:
  "post_feedback S2N now b st = (Ok200, st') \<longleftrightarrow>
     first_missing b required = None \<and> try_insert S2N now b st = Inr st'"
  by (auto simp: post_feedback_def split: option.splits sum.splits)

lemma bind_or_null:
  assumes "bind_value (or_null v) = Inr x"
  shows "(\<not> truthy v \<longrightarrow> x = SNull) \<and> x \<noteq> SText [] \<and> (\<forall>s. v = JStr s \<longrightarrow> s \<noteq> [] \<longrightarrow> x = SText s)"
  using assms by (cases v) (auto simp: or_null_def split: if_splits)

lemma stmt_run_duplicate:
  assumes "stmt_run now e c p r1 s1 r2 s2 r3 s3 r4 s4 g [] = Inr x"
    and "(c, p) \<in> set (map pair_of st)"
  shows "stmt_run now e c p r1 s1 r2 s2 r3 s3 r4 s4 g st = Inl SqliteError_UNIQUE"
  using assms unfolding stmt_run_def bind_exn_Inr_iff not_null_Inr_iff
  by (auto simp: bind_exn_def not_null_def)

lemma try_insert_duplicate:
  assumes "try_insert S2N now b [] = Inr x"
    and "b ''client_name'' = JStr c" and "b ''project'' = JStr p"
    and "(trim c, trim p) \<in> set (map pair_of st)"
  shows "try_insert S2N now b st = Inl SqliteError_UNIQUE"
proof -
  from assms(1) obtain e where e: "call_trim (b ''email'') = Inr e"
    and run: "stmt_run now e (trim c) (trim p)
        (js_Number S2N (b ''reactivity'')) (or_null (b ''reactivity_suggestion''))
        (js_Number S2N (b ''deadlines'')) (or_null (b ''deadlines_suggestion''))
        (js_Number S2N (b ''deliverables'')) (or_null (b ''deliverables_suggestion''))
        (js_Number S2N (b ''professionalism'')) (or_null (b ''professionalism_suggestion''))
        (or_null (b ''global_comment'')) [] = Inr x"
    unfolding try_insert_def bind_exn_Inr_iff using assms(2,3) by auto
  from stmt_run_duplicate [OF run assms(4)] e assms(2,3) show ?thesis
    by (simp add: try_insert_def bind_exn_def)
qed

lemma try_insert_present:
  assumes "b ''client_name'' = JStr c" and "b ''project'' = JStr p"
    and "(trim c, trim p) \<in> set (map pair_of st)"
  shows "try_insert S2N now b st \<noteq> Inr st'"
proof
  assume "try_insert S2N now b st = Inr st'"
  from try_insert_Inr [OF this] assms(1,2) obtain r where
    "pair_of r \<notin> set (map pair_of st)" "client_name r = trim c" "project r = trim p"
    by auto
  with assms(3) show False by (simp add: pair_of_def)
qed

lemma post_feedback_store:
  "snd (post_feedback S2N now b st) = st
   \<or> (\<exists>r. snd (post_feedback S2N now b st) = st @ [r] \<and> pair_of r \<notin> set (map pair_of st))"
proof (cases "fst (post_feedback S2N now b st) = Ok200")
  case True
  then have "post_feedback S2N now b st = (Ok200, snd (post_feedback S2N now b st))"
    by (metis prod.collapse)
  then have "try_insert S2N now b st = Inr (snd (post_feedback S2N now b st))"
    by (simp add: post_feedback_Ok200)
  from try_insert_Inr [OF this] show ?thesis by blast
next
  case False
  then show ?thesis
    by (auto simp: post_feedback_def split: option.splits sum.splits if_splits)
qed

lemma run_posts_distinct:
  "distinct (map pair_of st) \<Longrightarrow> distinct (map pair_of (run_posts S2N reqs st))"
proof (induction reqs arbitrary: st)
  case Nil
  then show ?case by simp
next
  case (Cons q reqs)
  obtain now b where q: "q = (now, b)" by (cases q)
  from post_feedback_store [of S2N now b st] Cons.prems
  have "distinct (map pair_of (snd (post_feedback S2N now b st)))" by auto
  from Cons.IH [OF this] show ?case by (simp add: q)
qed

lemma distinct_count_one:
  "distinct (map f xs) \<Longrightarrow> k \<in> set (map f xs) \<Longrightarrow> length (filter (\<lambda>x. f x = k) xs) = 1"
  by (induction xs) (auto simp: filter_empty_conv image_iff)

lemma example_store:
  "run_posts decimal_S2N [(example_time, example_body)] [] =
     [\<lparr>fb_id = 1, created_at = example_time, email = js ''a@x.com'',
       client_name = js ''Acme'', project = js ''Website'',
       reactivity = 2, reactivity_suggestion = SNull,
       deadlines = 5, deadlines_suggestion = SNull,
       deliverables = 5, deliverables_suggestion = SNull,
       professionalism = 5, professionalism_suggestion = SNull,
       global_comment = SNull\<rparr>]"
  by (simp add: post_eval example_body_def js_def trim_def isWhiteSpace_def)


lemma four: "(4::nat) = Suc (Suc (Suc (Suc 0)))" by simp

lemma six: "(6::nat) = Suc (Suc (Suc (Suc (Suc (Suc 0)))))" by simp

lemma pad_2: "pad 2 n = [digit (n div 10 mod 10), digit (n mod 10)]"
  by (simp add: numeral_2_eq_2)

lemma three: "(3::nat) = Suc (Suc (Suc 0))" by simp

lemma pad_3: "pad 3 n = [digit (n div 10 div 10 mod 10), digit (n div 10 mod 10), digit (n mod 10)]"
  unfolding three by simp

lemma pad_4: "pad 4 n = [digit (n div 10 div 10 div 10 mod 10), digit (n div 10 div 10 mod 10), digit (n div 10 mod 10), digit (n mod 10)]"
  unfolding four by simp

lemma pad_6: "pad 6 n = [digit (n div 10 div 10 div 10 div 10 div 10 mod 10), digit (n div 10 div 10 div 10 div 10 mod 10), digit (n div 10 div 10 div 10 mod 10), digit (n div 10 div 10 mod 10), digit (n div 10 mod 10), digit (n mod 10)]"
  unfolding six by simp

lemma element_1: "element (x # y # ys) 1 = y" by simp

lemmas string_eval = js_def trim_def isWhiteSpace_def

lemmas number_eval = decimal_S2N_def is_digit_def decimal_value_def

lemmas date_eval = monthRange_def Date_UTC_def trunc_def in_time_range_def iso_text_def
  iso_year_def pad_2 pad_3 pad_4 pad_6 digit_def element_1 Let_def bind_exn_def

lemma pow2_powr: "pow2 k = 2 powr (of_int k)"
  by (simp add: pow2_def powr_int)

lemma pow2_pos: "0 < pow2 k"
  by (simp add: pow2_powr)

lemma pow2_add: "pow2 (a + b) = pow2 a * pow2 b"
  by (simp add: pow2_powr powr_add)

lemma pow2_less: "pow2 a < pow2 b \<longleftrightarrow> a < b"
  by (simp add: pow2_powr)

lemma pow2_le: "pow2 a \<le> pow2 b \<longleftrightarrow> a \<le> b"
  by (simp add: pow2_powr)

lemma pow2_nat: "pow2 (int n) = 2 ^ n"
  by (simp add: pow2_def)

lemma pow2_neg: "pow2 (- int n) = 1 / 2 ^ n"
  by (cases "n = 0") (simp_all add: pow2_def)

lemma halvings_bracket:
  "1 \<le> x \<Longrightarrow> x < 2 ^ Suc n \<Longrightarrow> 2 ^ halvings n x \<le> x \<and> x < 2 ^ Suc (halvings n x)"
proof (induction n arbitrary: x)
  case 0
  then show ?case by simp
next
  case (Suc n)
  show ?case
  proof (cases "x < 2")
    case True
    with Suc.prems show ?thesis by simp
  next
    case False
    with Suc.prems have "1 \<le> x / 2" "x / 2 < 2 ^ Suc n" by simp_all
    from Suc.IH [OF this] False show ?thesis by simp
  qed
qed

lemma doublings_bracket:
  "1 \<le> x * 2 ^ n \<Longrightarrow> x < 2 \<Longrightarrow>
     1 \<le> x * 2 ^ doublings n x \<and> x * 2 ^ doublings n x < 2"
proof (induction n arbitrary: x)
  case 0
  then show ?case by simp
next
  case (Suc n)
  show ?case
  proof (cases "1 \<le> x")
    case True
    with Suc.prems show ?thesis by simp
  next
    case False
    with Suc.prems have "1 \<le> (2 * x) * 2 ^ n" "2 * x < 2" by (simp_all add: mult.assoc)
    from Suc.IH [OF this] False show ?thesis by (simp add: mult.assoc)
  qed
qed

lemma doublings_exhausted: "x * 2 ^ n < 1 \<Longrightarrow> doublings n x = n"
proof (induction n arbitrary: x)
  case 0
  then show ?case by simp
next
  case (Suc n)
  have p: "(1::real) \<le> 2 ^ Suc n" by (rule one_le_power) simp
  have "x < 1"
  proof (rule ccontr)
    assume "\<not> x < 1"
    then have "1 * 1 \<le> x * 2 ^ Suc n" using p by (intro mult_mono) simp_all
    with Suc.prems show False by simp
  qed
  moreover from Suc.prems have "(2 * x) * 2 ^ n < 1" by (simp add: mult.assoc)
  ultimately show ?case using Suc.IH by simp
qed

lemma binade_bracket:
  assumes "pow2 (- 1022) \<le> x" and "x < pow2 1024"
  shows "pow2 (binade x) \<le> x \<and> x < pow2 (binade x + 1)"
proof (cases "1 \<le> x")
  case True
  from assms(2) have "x < 2 ^ Suc 1023" by (simp add: pow2_def)
  from halvings_bracket [OF True this] True show ?thesis
    by (simp add: binade_def pow2_def nat_add_distrib)
next
  case False
  let ?d = "doublings 1022 x"
  from assms(1) have "1 \<le> x * 2 ^ 1022" by (simp add: pow2_def field_simps)
  from doublings_bracket [OF this] False
  have b: "1 \<le> x * 2 ^ ?d" "x * 2 ^ ?d < 2" by simp_all
  have "pow2 (- int ?d) \<le> x" using b(1) by (simp add: pow2_neg field_simps)
  moreover have "x < pow2 (- int ?d + 1)"
  proof -
    have "pow2 (- int ?d + 1) = pow2 (- int ?d) * pow2 1" by (rule pow2_add)
    also have "\<dots> = 2 / 2 ^ ?d" unfolding pow2_neg by (simp add: pow2_def)
    finally have eq: "pow2 (- int ?d + 1) = 2 / 2 ^ ?d" .
    have "x < 2 / 2 ^ ?d" using b(2) by (simp add: pos_less_divide_eq)
    then show ?thesis by (simp only: eq)
  qed
  ultimately show ?thesis using False by (simp add: binade_def)
qed

lemma binade_subnormal:
  assumes "0 \<le> x" and "x < pow2 (- 1022)"
  shows "binade x = - 1022"
proof -
  from assms(2) have "x * 2 ^ 1022 < 1" by (simp add: pow2_def field_simps)
  then have "doublings 1022 x = 1022" by (rule doublings_exhausted)
  moreover have "\<not> 1 \<le> x"
  proof
    assume "1 \<le> x"
    moreover have "pow2 (- 1022) < pow2 0" by (simp add: pow2_less)
    ultimately show False using assms(2) by (simp add: pow2_def)
  qed
  ultimately show ?thesis by (simp add: binade_def)
qed

lemma binade_eqI:
  assumes "pow2 e \<le> x" and "x < pow2 (e + 1)" and "- 1022 \<le> e" and "e \<le> 1023"
  shows "binade x = e"
proof -
  have "pow2 (- 1022) \<le> pow2 e" using assms(3) by (simp only: pow2_le)
  with assms(1) have lo: "pow2 (- 1022) \<le> x" by simp
  have "pow2 (e + 1) \<le> pow2 1024" using assms(4) by (simp add: pow2_le)
  with assms(2) have hi: "x < pow2 1024" by simp
  from binade_bracket [OF lo hi]
  have b: "pow2 (binade x) \<le> x" "x < pow2 (binade x + 1)" by simp_all
  from b(1) assms(2) have "pow2 (binade x) < pow2 (e + 1)" by simp
  then have "binade x < e + 1" by (simp only: pow2_less)
  moreover from assms(1) b(2) have "pow2 e < pow2 (binade x + 1)" by simp
  then have "e < binade x + 1" by (simp only: pow2_less)
  ultimately show ?thesis by simp
qed

lemma round_half_even_of_int: "round_half_even (of_int k) = k"
  by (simp add: round_half_even_def)

lemma real_of_int_less_2p53: "\<bar>m\<bar> < 2 ^ 53 \<Longrightarrow> \<bar>real_of_int m\<bar> < 2 ^ 53"
proof -
  assume "\<bar>m\<bar> < 2 ^ 53"
  then have "real_of_int \<bar>m\<bar> < real_of_int (2 ^ 53)" by (simp only: of_int_less_iff)
  then show ?thesis by simp
qed

lemma double_round_exact:
  assumes x: "x = of_int m * pow2 j" and m: "\<bar>m\<bar> < 2 ^ 53" and j: "- 1074 \<le> j"
    and r: "\<bar>x\<bar> < pow2 1024"
  shows "double_round x = x"
proof (cases "x = 0")
  case True
  then show ?thesis by (simp add: double_round_def)
next
  case False
  define e where "e = binade \<bar>x\<bar>"
  have ax: "\<bar>x\<bar> = \<bar>real_of_int m\<bar> * pow2 j"
    using pow2_pos [of j] by (simp add: x abs_mult)
  have le: "e - 52 \<le> j"
  proof (cases "\<bar>x\<bar> < pow2 (- 1022)")
    case True
    then have "e = - 1022" unfolding e_def by (intro binade_subnormal) simp_all
    with j show ?thesis by simp
  next
    case False
    then have "pow2 (- 1022) \<le> \<bar>x\<bar>" by simp
    from binade_bracket [OF this r] have "pow2 e \<le> \<bar>x\<bar>" by (simp add: e_def)
    also have "\<bar>x\<bar> < 2 ^ 53 * pow2 j"
      unfolding ax using real_of_int_less_2p53 [OF m] pow2_pos [of j]
      by (rule mult_strict_right_mono)
    also have "(2::real) ^ 53 * pow2 j = pow2 (53 + j)"
      unfolding pow2_add by (simp add: pow2_def)
    finally have "e < 53 + j" by (simp only: pow2_less)
    then show ?thesis by simp
  qed
  define n where "n = nat (j - (e - 52))"
  from le have n: "j = (e - 52) + int n" by (simp add: n_def)
  have u: "pow2 j = pow2 (e - 52) * 2 ^ n"
    by (simp only: n pow2_add pow2_nat)
  have q: "x / pow2 (e - 52) = of_int (m * 2 ^ n)"
    using pow2_pos [of "e - 52"] by (simp add: x u)
  have "double_round x = of_int (round_half_even (x / pow2 (e - 52))) * pow2 (e - 52)"
    using False by (simp add: double_round_def Let_def e_def)
  also have "\<dots> = of_int (m * 2 ^ n) * pow2 (e - 52)"
    by (simp only: q round_half_even_of_int)
  also have "\<dots> = x"
    by (simp add: x u)
  finally show ?thesis .
qed

lemma two_p53_less: "(2::real) ^ 53 < pow2 1024"
proof -
  have "pow2 (int 53) < pow2 1024" by (simp add: pow2_less)
  then show ?thesis by (simp only: pow2_nat)
qed

lemma double_round_of_int:
  assumes "\<bar>k\<bar> < 2 ^ 53"
  shows "double_round (of_int k) = of_int k"
proof (rule double_round_exact [where m = k and j = 0])
  show "real_of_int k = real_of_int k * pow2 0" by (simp add: pow2_def)
  show "\<bar>k\<bar> < 2 ^ 53" by (rule assms)
  show "- 1074 \<le> (0::int)" by simp
  from real_of_int_less_2p53 [OF assms] two_p53_less
  show "\<bar>real_of_int k\<bar> < pow2 1024" by simp
qed

lemma double_round_fraction:
  assumes "\<bar>k\<bar> < 2 ^ 53" and "i \<le> 1074"
  shows "double_round (of_int k / 2 ^ i) = of_int k / 2 ^ i"
proof (rule double_round_exact [where m = k and j = "- int i"])
  show "real_of_int k / 2 ^ i = real_of_int k * pow2 (- int i)" by (simp add: pow2_neg)
  show "\<bar>k\<bar> < 2 ^ 53" by (rule assms)
  show "- 1074 \<le> - int i" using assms(2) by simp
  have "(1::real) \<le> 2 ^ i" by (rule one_le_power) simp
  then have "\<bar>real_of_int k\<bar> / 2 ^ i \<le> \<bar>real_of_int k\<bar> / 1"
    by (intro divide_left_mono) simp_all
  with real_of_int_less_2p53 [OF assms(1)] two_p53_less
  show "\<bar>real_of_int k / 2 ^ i\<bar> < pow2 1024" by simp
qed

lemma double_round_numeral:
  "(numeral n :: int) < 2 ^ 53 \<Longrightarrow> double_round (numeral n) = numeral n"
  using double_round_of_int [of "numeral n"] by simp

lemma double_round_0: "double_round 0 = 0"
  by (simp add: double_round_def)

lemma double_round_1: "double_round 1 = 1"
  using double_round_of_int [of 1] by simp

lemma double_round_halves:
  "(numeral n :: int) < 2 ^ 53 \<Longrightarrow> double_round (numeral n / 2) = numeral n / 2"
  "(numeral n :: int) < 2 ^ 53 \<Longrightarrow> double_round (numeral n / 4) = numeral n / 4"
  "(numeral n :: int) < 2 ^ 53 \<Longrightarrow> double_round (numeral n / 8) = numeral n / 8"
  using double_round_fraction [of "numeral n" 1] double_round_fraction [of "numeral n" 2]
    double_round_fraction [of "numeral n" 3]
  by simp_all

lemma double_round_unit_binade:
  assumes "1 \<le> x" and "x < 2"
  shows "double_round x = of_int (round_half_even (x * 2 ^ 52)) / 2 ^ 52"
proof -
  have b: "binade x = 0"
    using assms by (intro binade_eqI) (simp_all add: pow2_def)
  have u: "pow2 (0 - 52) = 1 / 2 ^ 52" using pow2_neg [of 52] by simp
  have "double_round x = of_int (round_half_even (x / pow2 (0 - 52))) * pow2 (0 - 52)"
    using assms by (simp add: double_round_def Let_def b)
  also have "\<dots> = of_int (round_half_even (x * 2 ^ 52)) / 2 ^ 52"
    unfolding u by simp
  finally show ?thesis .
qed

lemmas double_eval = AVG_def score_def fdiv_def double_round_numeral double_round_0
  double_round_1 double_round_halves

lemma sample_store_eq:
  "sample_store =
     [\<lparr>fb_id = 1, created_at = js ''2026-01-03T09:00:00.000Z'', email = js ''a@x.com'',
       client_name = js ''Acme'', project = js ''App'',
       reactivity = 5, reactivity_suggestion = SNull,
       deadlines = 5, deadlines_suggestion = SNull,
       deliverables = 5, deliverables_suggestion = SNull,
       professionalism = 5, professionalism_suggestion = SNull,
       global_comment = SNull\<rparr>,
      \<lparr>fb_id = 2, created_at = js ''2026-01-15T10:30:00.000Z'', email = js ''a@x.com'',
       client_name = js ''Acme'', project = js ''Website'',
       reactivity = 2, reactivity_suggestion = SNull,
       deadlines = 5, deadlines_suggestion = SNull,
       deliverables = 5, deliverables_suggestion = SNull,
       professionalism = 5, professionalism_suggestion = SNull,
       global_comment = SNull\<rparr>,
      \<lparr>fb_id = 3, created_at = js ''2026-01-20T16:45:10.250Z'', email = js ''g@x.com'',
       client_name = js ''Globex'', project = js ''Website'',
       reactivity = 4, reactivity_suggestion = SNull,
       deadlines = 4, deadlines_suggestion = SNull,
       deliverables = 3, deliverables_suggestion = SNull,
       professionalism = 5, professionalism_suggestion = SNull,
       global_comment = SNull\<rparr>,
      \<lparr>fb_id = 4, created_at = js ''2026-02-02T08:00:00.000Z'', email = js ''a@x.com'',
       client_name = js ''Initech'', project = js ''Website'',
       reactivity = 1, reactivity_suggestion = SNull,
       deadlines = 1, deadlines_suggestion = SNull,
       deliverables = 1, deliverables_suggestion = SNull,
       professionalism = 1, professionalism_suggestion = SNull,
       global_comment = SNull\<rparr>]"
  by (simp add: sample_store_def sample_requests_def post_eval example_body_def app_body_def
      second_body_def february_body_def example_time_def string_eval)

lemma january: "monthRange decimal_S2N (js ''2026-01'') =
    Inr (js ''2026-01-01T00:00:00.000Z'', js ''2026-02-01T00:00:00.000Z'')"
  by (simp add: date_eval string_eval number_eval)

lemma sample_rows:
  "select_stats (js ''2026-01-01T00:00:00.000Z'') (js ''2026-02-01T00:00:00.000Z'') sample_store
     = [website_row, app_row]"
  unfolding sample_store_eq
  by (simp add: select_stats_def in_range_def text_le_def group_of_def aggregate_def
      double_eval website_row_def app_row_def js_def)

lemma sample_plan:
  "action_loop [website_row, app_row] [] =
     [\<lparr>ap_project = js ''Website'', recommendations = [reco_reactivity]\<rparr>]"
  by (simp add: website_row_def app_row_def recommendations_for_def push_if_def threshold_def)

lemma sample_report_eq:
  "get_stats decimal_S2N sample_store (QString (js ''2026-01'')) = Stats200 sample_report"
proof -
  have "js ''2026-01'' \<noteq> []" by (simp add: js_def)
  then show ?thesis
    by (simp add: get_stats_def january sample_rows sample_plan sample_report_def
        del: action_loop.simps)
qed

lemma get_stats_200:
  assumes "get_stats S2N st q = Stats200 rp"
  shows "\<exists>month start end'. q = QString month \<and> month \<noteq> []
     \<and> monthRange S2N month = Inr (start, end')
     \<and> rp = \<lparr>rp_month = month, rp_start = start, rp_end = end',
             projects = select_stats start end' st,
             action_plan = action_loop (select_stats start end' st) []\<rparr>"
  using assms
  by (auto simp: get_stats_def Let_def split: query_value.splits if_splits sum.splits)

lemma action_loop_eq:
  "action_loop rows acts =
     acts @ map (\<lambda>r. \<lparr>ap_project = ps_project r, recommendations = recommendations_for r\<rparr>)
              (filter (\<lambda>r. recommendations_for r \<noteq> []) rows)"
  by (induction rows arbitrary: acts) (simp_all add: Let_def)

lemma recommendations_for_empty:
  "recommendations_for r = [] \<longleftrightarrow>
     \<not> (avg_reactivity r < 4 \<or> avg_deadlines r < 4 \<or> avg_deliverables r < 4
        \<or> avg_professionalism r < 4)"
  by (simp add: recommendations_for_def push_if_def threshold_def)

lemma select_stats_row:
  assumes "p \<in> set (select_stats start end' st)"
  shows "p = aggregate (ps_project p) (group_of (ps_project p) (in_range start end' st))"
  using assms by (auto simp: select_stats_def Let_def aggregate_def)

lemma group_keys_distinct: "distinct (group_keys rows)"
  by (induction rows) simp_all

lemma distinct_map_sort_key: "distinct (map g (sort_key f xs)) = distinct (map g xs)"
  by (simp add: distinct_map)

lemma select_stats_distinct: "distinct (map ps_project (select_stats start end' st))"
proof -
  let ?rows = "in_range start end' st"
  let ?xs = "map (\<lambda>p. aggregate p (group_of p ?rows)) (group_keys ?rows)"
  have "map ps_project ?xs = group_keys ?rows"
    by (simp add: aggregate_def comp_def)
  then have "distinct (map ps_project ?xs)"
    by (simp add: group_keys_distinct)
  then have "distinct (map ps_project (sort_key avg_total ?xs))"
    by (simp only: distinct_map_sort_key)
  then show ?thesis by (simp add: select_stats_def Let_def)
qed

lemma distinct_filter_key:
  "distinct (map f xs) \<Longrightarrow> x \<in> set xs \<Longrightarrow> filter (\<lambda>y. f y = f x) xs = [x]"
proof (induction xs)
  case Nil
  then show ?case by simp
next
  case (Cons a xs)
  show ?case
  proof (cases "x = a")
    case True
    with Cons.prems have "\<forall>y\<in>set xs. f y \<noteq> f a" by (auto simp: image_iff)
    with True show ?thesis by (simp add: filter_empty_conv)
  next
    case False
    with Cons.prems have "x \<in> set xs" "f a \<noteq> f x" by (auto simp: image_iff)
    with Cons show ?thesis by simp
  qed
qed

lemma reco_distinct:
  "reco_reactivity \<noteq> reco_deadlines" "reco_reactivity \<noteq> reco_deliverables"
  "reco_reactivity \<noteq> reco_professionalism" "reco_deadlines \<noteq> reco_deliverables"
  "reco_deadlines \<noteq> reco_professionalism" "reco_deliverables \<noteq> reco_professionalism"
  by (simp_all add: reco_reactivity_def reco_deadlines_def reco_deliverables_def
      reco_professionalism_def js_def)

lemma count_recommendations:
  "count_list (recommendations_for r) reco_reactivity = (if avg_reactivity r < 4 then 1 else 0)"
  "count_list (recommendations_for r) reco_deadlines = (if avg_deadlines r < 4 then 1 else 0)"
  "count_list (recommendations_for r) reco_deliverables = (if avg_deliverables r < 4 then 1 else 0)"
  "count_list (recommendations_for r) reco_professionalism =
     (if avg_professionalism r < 4 then 1 else 0)"
  using reco_distinct
  by (simp_all add: recommendations_for_def push_if_def threshold_def)

lemma set_recommendations:
  "set (recommendations_for r) \<subseteq>
     {reco_reactivity, reco_deadlines, reco_deliverables, reco_professionalism}"
  by (auto simp: recommendations_for_def push_if_def)

lemma plan_recommendations_row:
  assumes "get_stats S2N st q = Stats200 rp" and "r \<in> set (projects rp)"
  shows "plan_recommendations rp (ps_project r) = recommendations_for r"
proof -
  from get_stats_200 [OF assms(1)] obtain start end' where
    rp: "projects rp = select_stats start end' st"
        "action_plan rp = action_loop (projects rp) []"
    by auto
  have d: "distinct (map ps_project (projects rp))"
    by (simp add: rp(1) select_stats_distinct)
  have "filter (\<lambda>a. ap_project a = ps_project r) (action_plan rp) =
      map (\<lambda>r. \<lparr>ap_project = ps_project r, recommendations = recommendations_for r\<rparr>)
        (filter (\<lambda>x. recommendations_for x \<noteq> [])
          (filter (\<lambda>y. ps_project y = ps_project r) (projects rp)))"
    by (simp add: rp(2) action_loop_eq filter_map comp_def conj_commute)
  also have "filter (\<lambda>y. ps_project y = ps_project r) (projects rp) = [r]"
    using d assms(2) by (rule distinct_filter_key)
  finally show ?thesis
    by (simp add: plan_recommendations_def)
qed

lemma unat_digit: "k < 10 \<Longrightarrow> unat (digit k) = 48 + k"
  unfolding digit_def unat_of_nat by simp

lemma digit_not_below_zero: "k < 10 \<Longrightarrow> \<not> digit k < 0x30"
  by (simp add: word_less_nat_alt unat_digit)

lemma digit_eq_zero: "k < 10 \<Longrightarrow> digit k = 0x30 \<longleftrightarrow> k = 0"
  by (simp add: word_unat_eq_iff unat_digit)

lemma digit_below_one: "k < 10 \<Longrightarrow> digit k < 0x31 \<longleftrightarrow> k = 0"
  by (auto simp add: word_less_nat_alt unat_digit)

lemma january_contains:
  assumes "1 \<le> d" "d \<le> 31" "h < 24" "mi < 60" "s < 60" "ms < 1000"
  shows "text_le (js ''2026-01-01T00:00:00.000Z'') (iso_text 2026 1 d h mi s ms)"
    and "text_less (iso_text 2026 1 d h mi s ms) (js ''2026-02-01T00:00:00.000Z'')"
proof -
  have dg: "d div 10 mod 10 < 10" "d mod 10 < 10" "h div 10 mod 10 < 10" "h mod 10 < 10"
    "mi div 10 mod 10 < 10" "mi mod 10 < 10" "s div 10 mod 10 < 10" "s mod 10 < 10"
    "ms div 10 div 10 mod 10 < 10" "ms div 10 mod 10 < 10" "ms mod 10 < 10"
    by simp_all
  have nz: "\<not> (d div 10 mod 10 = 0 \<and> d mod 10 = 0)"
    using assms(1,2) by presburger
  have pre: "iso_text 2026 1 d h mi s ms =
      js ''2026-01-'' @ pad 2 d @ js ''T'' @ pad 2 h @ js '':'' @ pad 2 mi @ js '':''
        @ pad 2 s @ js ''.'' @ pad 3 ms @ js ''Z''"
    by (simp add: iso_text_def iso_year_def pad_2 pad_4 digit_def js_def)
  show "text_less (iso_text 2026 1 d h mi s ms) (js ''2026-02-01T00:00:00.000Z'')"
    unfolding pre by (simp add: js_def)
  show "text_le (js ''2026-01-01T00:00:00.000Z'') (iso_text 2026 1 d h mi s ms)"
    unfolding pre text_le_def pad_2 pad_3 using nz
    by (simp add: js_def digit_not_below_zero digit_eq_zero digit_below_one dg)
qed

lemma split_2026_01: "split_dash (js ''2026-01'') = [js ''2026'', js ''01'']"
  by (simp add: js_def)

lemma january_any_S2N:
  assumes "S2N (js ''2026'') = Some 2026" and "S2N (js ''01'') = Some 1"
  shows "monthRange S2N (js ''2026-01'') =
    Inr (js ''2026-01-01T00:00:00.000Z'', js ''2026-02-01T00:00:00.000Z'')"
  unfolding monthRange_def split_2026_01 using assms
  by (simp add: Date_UTC_def trunc_def in_time_range_def iso_text_def
      iso_year_def pad_2 pad_3 pad_4 digit_def Let_def bind_exn_def js_def)

lemma get_stats_string:
  assumes "month \<noteq> []" and "monthRange S2N month = Inr (start, end')"
    and "select_stats start end' st = rows" and "action_loop rows [] = plan"
  shows "get_stats S2N st (QString month) =
    Stats200 \<lparr>rp_month = month, rp_start = start, rp_end = end',
               projects = rows, action_plan = plan\<rparr>"
  using assms by (simp add: get_stats_def del: action_loop.simps)

lemma trunc_of_int: "trunc (of_int n) = n"
  by (simp add: trunc_def)

lemma trunc_of_int_minus_1: "trunc (of_int n - 1) = n - 1"
proof -
  have "of_int n - (1::real) = of_int (n - 1)" by simp
  then show ?thesis by (simp only: trunc_of_int)
qed

lemma split_dash_not_Nil: "split_dash s = [a, b] \<Longrightarrow> s \<noteq> []"
  by auto

lemma is_whole_iff: "is_whole x \<longleftrightarrow> (\<exists>n. x = real_of_int n)"
  by (simp add: is_whole_def)

lemma is_whole_add: "is_whole x \<Longrightarrow> is_whole y \<Longrightarrow> is_whole (x + y)"
proof -
  assume "is_whole x" "is_whole y"
  then obtain n m where "x = real_of_int n" "y = real_of_int m"
    by (auto simp: is_whole_iff)
  then have "x + y = real_of_int (n + m)" by simp
  then show ?thesis unfolding is_whole_iff by blast
qed

lemma whole_sum: "list_all is_whole xs \<Longrightarrow> is_whole (sum_list xs)"
proof (induction xs)
  case Nil
  have "(0::real) = real_of_int 0" by simp
  then show ?case unfolding is_whole_iff sum_list.Nil by blast
next
  case (Cons a xs)
  then show ?case by (simp add: is_whole_add)
qed

lemma whole_exact:
  assumes "is_whole x" and "\<bar>x\<bar> < 2 ^ 53"
  shows "double_round x = x" and "double_round (x / 4) = x / 4"
proof -
  from assms(1) obtain n where x: "x = real_of_int n" by (auto simp: is_whole_iff)
  from assms(2) have "real_of_int \<bar>n\<bar> < real_of_int (2 ^ 53)" using x by simp
  then have k: "\<bar>n\<bar> < 2 ^ 53" by (simp only: of_int_less_iff)
  from double_round_of_int [OF k] show "double_round x = x" using x by simp
  from double_round_fraction [OF k, of 2] show "double_round (x / 4) = x / 4" using x by simp
qed

lemma sum_exact:
  assumes "list_all is_whole xs" and "sum_list (map abs xs) < 2 ^ 53"
  shows "double_round (sum_list xs) = sum_list xs"
    and "double_round (sum_list xs / 4) = sum_list xs / 4"
proof -
  have "\<bar>sum_list xs\<bar> \<le> sum_list (map abs xs)" by (rule sum_list_abs)
  with assms(2) have "\<bar>sum_list xs\<bar> < 2 ^ 53" by simp
  with whole_sum [OF assms(1)] show "double_round (sum_list xs) = sum_list xs"
    and "double_round (sum_list xs / 4) = sum_list xs / 4"
    by (simp_all add: whole_exact)
qed

lemma AVG_whole:
  assumes "list_all is_whole xs" and "sum_list (map abs xs) < 2 ^ 53"
  shows "AVG xs = double_round (mean xs)"
  by (simp add: AVG_def fdiv_def mean_def sum_exact [OF assms])

lemma member_le_sum_list_real:
  fixes xs :: "real list"
  shows "\<forall>y\<in>set xs. 0 \<le> y \<Longrightarrow> x \<in> set xs \<Longrightarrow> x \<le> sum_list xs"
proof (induction xs)
  case Nil
  then show ?case by simp
next
  case (Cons a xs)
  then have "0 \<le> sum_list xs" by (intro sum_list_nonneg) simp
  with Cons show ?case by auto
qed

lemma dimension_whole:
  assumes "whole_ratings g"
  shows "list_all is_whole (map reactivity g)" "list_all is_whole (map deadlines g)"
    "list_all is_whole (map deliverables g)" "list_all is_whole (map professionalism g)"
    "list_all is_whole (map (\<lambda>r. reactivity r + deadlines r + deliverables r
        + professionalism r) g)"
  using assms by (simp_all add: whole_ratings_def list_all_iff is_whole_add)

lemma dimension_mass:
  "sum_list (map abs (map reactivity g)) \<le> rating_mass g"
  "sum_list (map abs (map deadlines g)) \<le> rating_mass g"
  "sum_list (map abs (map deliverables g)) \<le> rating_mass g"
  "sum_list (map abs (map professionalism g)) \<le> rating_mass g"
  "sum_list (map abs (map (\<lambda>r. reactivity r + deadlines r + deliverables r
        + professionalism r) g)) \<le> rating_mass g"
  unfolding rating_mass_def map_map comp_def by (rule sum_list_mono, simp)+

lemma row_mass:
  assumes "r \<in> set g"
  shows "\<bar>reactivity r + deadlines r + deliverables r + professionalism r\<bar> \<le> rating_mass g"
proof -
  let ?m = "\<lambda>r. \<bar>reactivity r\<bar> + \<bar>deadlines r\<bar> + \<bar>deliverables r\<bar> + \<bar>professionalism r\<bar>"
  have "?m r \<le> sum_list (map ?m g)"
    using assms by (intro member_le_sum_list_real) auto
  then show ?thesis unfolding rating_mass_def by linarith
qed

lemma score_whole:
  assumes "whole_ratings g" and "rating_mass g < 2 ^ 53" and "r \<in> set g"
  shows "score r = (reactivity r + deadlines r + deliverables r + professionalism r) / 4"
proof -
  let ?t = "reactivity r + deadlines r + deliverables r + professionalism r"
  from assms(1,3) have w: "is_whole ?t"
    by (simp add: whole_ratings_def list_all_iff is_whole_add)
  from row_mass [OF assms(3)] assms(2) have "\<bar>?t\<bar> < 2 ^ 53" by simp
  from whole_exact [OF w this] show ?thesis by (simp add: score_def fdiv_def)
qed

lemma sum_list_quarters:
  fixes f :: "'a \<Rightarrow> real"
  shows "sum_list (map (\<lambda>r. f r / 4) g) = sum_list (map f g) / 4"
  by (induction g) (simp_all add: add_divide_distrib)

lemma sum_list_scores:
  assumes "whole_ratings g" and "rating_mass g < 2 ^ 53"
  shows "sum_list (map score g) =
    sum_list (map (\<lambda>r. reactivity r + deadlines r + deliverables r + professionalism r) g) / 4"
proof -
  have "map score g =
      map (\<lambda>r. (reactivity r + deadlines r + deliverables r + professionalism r) / 4) g"
    using score_whole [OF assms] by (intro map_cong) simp_all
  then show ?thesis by (simp only: sum_list_quarters)
qed

lemma AVG_scores:
  assumes "whole_ratings g" and "rating_mass g < 2 ^ 53"
  shows "AVG (map score g) = double_round (mean_raw_total g / 4)"
proof -
  let ?t = "\<lambda>r. reactivity r + deadlines r + deliverables r + professionalism r"
  have "sum_list (map abs (map ?t g)) < 2 ^ 53"
    using dimension_mass(5) [of g] assms(2) by simp
  from sum_exact(2) [OF dimension_whole(5) [OF assms(1)] this]
  have e: "double_round (sum_list (map ?t g) / 4) = sum_list (map ?t g) / 4" .
  have c: "sum_list (map ?t g) / 4 / real (length g) = sum_list (map ?t g) / real (length g) / 4"
    by simp
  show ?thesis
    unfolding AVG_def fdiv_def sum_list_scores [OF assms] e length_map mean_raw_total_def
      mean_def c
    by (rule refl)
qed

lemma mean_raw_total_eq:
  "mean_raw_total g / 4 =
     (mean (map reactivity g) + mean (map deadlines g) + mean (map deliverables g)
      + mean (map professionalism g)) / 4"
proof -
  have "sum_list (map (\<lambda>r. reactivity r + deadlines r + deliverables r + professionalism r) g)
      = sum_list (map reactivity g) + sum_list (map deadlines g) + sum_list (map deliverables g)
        + sum_list (map professionalism g)"
    by (induction g) simp_all
  then show ?thesis by (simp add: mean_raw_total_def mean_def add_divide_distrib)
qed

lemma rounding_store_eq:
  "rounding_store =
     [\<lparr>fb_id = 1, created_at = js ''2026-01-05T08:00:00.000Z'', email = js ''a@x.com'',
       client_name = js ''Acme'', project = js ''Website'',
       reactivity = 1, reactivity_suggestion = SNull,
       deadlines = 1, deadlines_suggestion = SNull,
       deliverables = 1, deliverables_suggestion = SNull,
       professionalism = 1, professionalism_suggestion = SNull,
       global_comment = SNull\<rparr>,
      \<lparr>fb_id = 2, created_at = js ''2026-01-06T08:00:00.000Z'', email = js ''a@x.com'',
       client_name = js ''Globex'', project = js ''Website'',
       reactivity = 1, reactivity_suggestion = SNull,
       deadlines = 1, deadlines_suggestion = SNull,
       deliverables = 2, deliverables_suggestion = SNull,
       professionalism = 2, professionalism_suggestion = SNull,
       global_comment = SNull\<rparr>,
      \<lparr>fb_id = 3, created_at = js ''2026-01-07T08:00:00.000Z'', email = js ''a@x.com'',
       client_name = js ''Initech'', project = js ''Website'',
       reactivity = 1, reactivity_suggestion = SNull,
       deadlines = 1, deadlines_suggestion = SNull,
       deliverables = 2, deliverables_suggestion = SNull,
       professionalism = 2, professionalism_suggestion = SNull,
       global_comment = SNull\<rparr>]"
  by (simp add: rounding_store_def rounding_requests_def post_eval example_body_def string_eval)

lemma double_round_thirds:
  "double_round (4 / 3) = 6004799503160661 / 2 ^ 52"
  "double_round (5 / 3) = 7505999378950827 / 2 ^ 52"
  by (simp_all add: double_round_unit_binade round_half_even_def)

lemma rounding_rows:
  "select_stats (js ''2026-01-01T00:00:00.000Z'') (js ''2026-02-01T00:00:00.000Z'')
     rounding_store = [rounding_row]"
  unfolding rounding_store_eq
  by (simp add: select_stats_def in_range_def text_le_def group_of_def aggregate_def
      double_eval double_round_thirds rounding_row_def js_def)

lemma rounding_plan:
  "action_loop [rounding_row] [] =
     [\<lparr>ap_project = js ''Website'',
       recommendations =
         [reco_reactivity, reco_deadlines, reco_deliverables, reco_professionalism]\<rparr>]"
  by (simp add: rounding_row_def recommendations_for_def push_if_def threshold_def)

lemma rounding_report_eq:
  "get_stats decimal_S2N rounding_store (QString (js ''2026-01'')) = Stats200 rounding_report"
proof -
  have ne: "js ''2026-01'' \<noteq> []" by (simp add: js_def)
  show ?thesis
    unfolding rounding_report_def
    by (rule get_stats_string [OF ne january rounding_rows rounding_plan])
qed

lemma rounding_responses:
  "responses_of rounding_report rounding_store rounding_row = rounding_store"
  unfolding rounding_store_eq
  by (simp add: responses_of_def rounding_report_def rounding_row_def group_of_def in_range_def
      text_le_def js_def)

lemma call_trim_not_UNIQUE: "call_trim v \<noteq> Inl SqliteError_UNIQUE"
  by (cases v) simp_all

lemma bind_value_not_UNIQUE: "bind_value v \<noteq> Inl SqliteError_UNIQUE"
  by (cases v) simp_all

lemma not_null_not_UNIQUE: "not_null n \<noteq> Inl SqliteError_UNIQUE"
  by (cases n) (simp_all add: not_null_def)

lemma bind_exn_Inl_iff:
  "bind_exn m f = Inl x \<longleftrightarrow> m = Inl x \<or> (\<exists>v. m = Inr v \<and> f v = Inl x)"
  by (cases m) (simp_all add: bind_exn_def)

lemma stmt_run_UNIQUE:
  assumes "stmt_run now e c p r1 s1 r2 s2 r3 s3 r4 s4 g st = Inl SqliteError_UNIQUE"
  shows "\<exists>x. stmt_run now e c p r1 s1 r2 s2 r3 s3 r4 s4 g [] = Inr x"
  using assms unfolding stmt_run_def bind_exn_Inl_iff
  by (auto simp: bind_value_not_UNIQUE not_null_not_UNIQUE bind_exn_def split: if_splits)

lemma try_insert_UNIQUE:
  assumes "try_insert S2N now b st = Inl SqliteError_UNIQUE"
  shows "\<exists>x. try_insert S2N now b [] = Inr x"
proof -
  from assms obtain e c p where
    t: "call_trim (b ''email'') = Inr e" "call_trim (b ''client_name'') = Inr c"
       "call_trim (b ''project'') = Inr p"
    and run: "stmt_run now e c p
        (js_Number S2N (b ''reactivity'')) (or_null (b ''reactivity_suggestion''))
        (js_Number S2N (b ''deadlines'')) (or_null (b ''deadlines_suggestion''))
        (js_Number S2N (b ''deliverables'')) (or_null (b ''deliverables_suggestion''))
        (js_Number S2N (b ''professionalism'')) (or_null (b ''professionalism_suggestion''))
        (or_null (b ''global_comment'')) st = Inl SqliteError_UNIQUE"
    unfolding try_insert_def bind_exn_Inl_iff
    using call_trim_not_UNIQUE by blast
  from stmt_run_UNIQUE [OF run] t show ?thesis
    by (simp add: try_insert_def bind_exn_def)
qed

lemma post_feedback_Err409:
  "fst (post_feedback S2N now b st) = Err409 \<longleftrightarrow>
     first_missing b required = None \<and> try_insert S2N now b st = Inl SqliteError_UNIQUE"
proof -
  have "message_includes_UNIQUE e \<longleftrightarrow> e = SqliteError_UNIQUE" for e
    by (cases e) simp_all
  then show ?thesis
    by (auto simp: post_feedback_def split: option.splits sum.splits)
qed

section \<open>Submission\<close>

text \<open>
  C1 as stated fails: with the example submission stored, a second submission for the
  same client and project is answered 400 when it has no email, and 500 when its
  reactivity is the string \<open>abc\<close>, which is NaN as a number and fails the NOT NULL
  check before the UNIQUE one; neither is answered 409.
\<close>

theorem duplicate_pair_not_always_409:
  "(js ''Acme'', js ''Website'')
     \<in> set (map pair_of (run_posts decimal_S2N [(example_time, example_body)] []))
   \<and> no_email_body ''client_name'' = JStr (js ''Acme'')
   \<and> no_email_body ''project'' = JStr (js ''Website'')
   \<and> fst (post_feedback decimal_S2N example_time no_email_body
           (run_posts decimal_S2N [(example_time, example_body)] [])) = Err400 ''email''
   \<and> bad_rating_body ''client_name'' = JStr (js ''Acme'')
   \<and> bad_rating_body ''project'' = JStr (js ''Website'')
   \<and> fst (post_feedback decimal_S2N example_time bad_rating_body
           (run_posts decimal_S2N [(example_time, example_body)] []))
       = Err500 SqliteError_NOT_NULL"
  unfolding example_store
  by (simp add: post_eval no_email_body_def bad_rating_body_def example_body_def string_eval
      number_eval)

text \<open>
  C1, amended. Whatever submissions have been handled, starting from the empty table, no
  two stored records have the same (client_name, project). A further submission whose
  trimmed client_name and project are those of a stored record is never answered 200 and
  leaves the table as it is, so exactly one record of that pair stays; and it is answered
  409 exactly when it is a submission that the empty table would answer 200.
\<close>

theorem one_record_per_client_and_project:
  assumes "st = run_posts S2N reqs []"
  shows "distinct (map pair_of st)
    \<and> (\<forall>now b c p.
          b ''client_name'' = JStr c \<and> b ''project'' = JStr p
          \<and> (trim c, trim p) \<in> set (map pair_of st) \<longrightarrow>
            fst (post_feedback S2N now b st) \<noteq> Ok200
            \<and> snd (post_feedback S2N now b st) = st
            \<and> length (filter (\<lambda>r. pair_of r = (trim c, trim p)) st) = 1
            \<and> (fst (post_feedback S2N now b st) = Err409 \<longleftrightarrow>
                 fst (post_feedback S2N now b []) = Ok200))"
proof (intro conjI allI impI)
  show d: "distinct (map pair_of st)"
    unfolding assms by (rule run_posts_distinct) simp
  fix now b c p
  assume h: "b ''client_name'' = JStr c \<and> b ''project'' = JStr p
          \<and> (trim c, trim p) \<in> set (map pair_of st)"
  then have ne: "\<And>st'. try_insert S2N now b st \<noteq> Inr st'"
    using try_insert_present by blast
  then show "fst (post_feedback S2N now b st) \<noteq> Ok200"
    by (auto simp: post_feedback_def split: option.splits sum.splits)
  from ne show "snd (post_feedback S2N now b st) = st"
    by (auto simp: post_feedback_def split: option.splits sum.splits)
  from d h show "length (filter (\<lambda>r. pair_of r = (trim c, trim p)) st) = 1"
    by (simp add: distinct_count_one)
  show "fst (post_feedback S2N now b st) = Err409 \<longleftrightarrow>
      fst (post_feedback S2N now b []) = Ok200"
  proof
    assume "fst (post_feedback S2N now b []) = Ok200"
    then have "post_feedback S2N now b [] = (Ok200, snd (post_feedback S2N now b []))"
      by (metis prod.collapse)
    then have fm: "first_missing b required = None"
      and ins: "try_insert S2N now b [] = Inr (snd (post_feedback S2N now b []))"
      by (simp_all add: post_feedback_Ok200)
    from try_insert_duplicate [OF ins] h
    have "try_insert S2N now b st = Inl SqliteError_UNIQUE" by blast
    with fm show "fst (post_feedback S2N now b st) = Err409"
      by (simp add: post_feedback_Err409)
  next
    assume "fst (post_feedback S2N now b st) = Err409"
    then have fm: "first_missing b required = None"
      and u: "try_insert S2N now b st = Inl SqliteError_UNIQUE"
      by (simp_all add: post_feedback_Err409)
    from try_insert_UNIQUE [OF u] obtain x where "try_insert S2N now b [] = Inr x" by blast
    with fm have "post_feedback S2N now b [] = (Ok200, x)"
      by (simp add: post_feedback_Ok200)
    then show "fst (post_feedback S2N now b []) = Ok200" by simp
  qed
qed

text \<open>
  C1, amended, at an input: after the example submission, a second one for the same client
  and project (other e-mail, spaces around the name) is answered 409 and the table keeps
  its one record.
\<close>

theorem one_record_per_client_and_project_witness:
  "run_posts decimal_S2N [(example_time, example_body)] [] \<noteq> []
   \<and> post_feedback decimal_S2N example_time resubmission_body
        (run_posts decimal_S2N [(example_time, example_body)] [])
      = (Err409, run_posts decimal_S2N [(example_time, example_body)] [])
   \<and> length (filter (\<lambda>r. pair_of r = (js ''Acme'', js ''Website''))
        (run_posts decimal_S2N [(example_time, example_body)] [])) = 1"
proof -
  let ?st = "run_posts decimal_S2N [(example_time, example_body)] []"
  have t: "trim (js ''  Acme '') = js ''Acme''" "trim (js ''Website'') = js ''Website''"
    by (simp_all add: js_def trim_def isWhiteSpace_def)
  have k: "resubmission_body ''client_name'' = JStr (js ''  Acme '')
     \<and> resubmission_body ''project'' = JStr (js ''Website'')
     \<and> (trim (js ''  Acme ''), trim (js ''Website'')) \<in> set (map pair_of ?st)"
    unfolding t example_store by (simp add: pair_of_def resubmission_body_def example_body_def)
  have ok: "fst (post_feedback decimal_S2N example_time resubmission_body []) = Ok200"
    by (simp add: post_eval resubmission_body_def example_body_def js_def trim_def
        isWhiteSpace_def)
  from one_record_per_client_and_project [OF refl, of decimal_S2N "[(example_time, example_body)]"]
    k ok
  have "fst (post_feedback decimal_S2N example_time resubmission_body ?st) = Err409
      \<and> snd (post_feedback decimal_S2N example_time resubmission_body ?st) = ?st
      \<and> length (filter (\<lambda>r. pair_of r = (trim (js ''  Acme ''), trim (js ''Website''))) ?st) = 1"
    by blast
  then show ?thesis unfolding t by (auto simp: example_store prod_eq_iff)
qed


text \<open>
  C3 as stated fails: a required text field of white space only passes the check, which
  compares the untrimmed value with the empty string; the submission is answered 200 and
  the record is stored with an empty client_name.
\<close>

theorem whitespace_only_name_is_accepted:
  "trim (js ''   '') = []
   \<and> fst (post_feedback decimal_S2N example_time blank_name_body []) = Ok200
   \<and> map client_name (snd (post_feedback decimal_S2N example_time blank_name_body [])) = [[]]"
  by (simp add: post_eval blank_name_body_def example_body_def js_def trim_def isWhiteSpace_def)

text \<open>
  C3, amended. A submission is answered 400 exactly when one of the seven required
  properties is absent, null or the empty string as submitted, before any trimming. The
  400 names such a property, and no record is created.
\<close>

theorem validation_rejects_exactly_missing_fields:
  "((\<exists>k. fst (post_feedback S2N now b st) = Err400 k) \<longleftrightarrow>
      (\<exists>k\<in>set required. b k = JUndefined \<or> b k = JNull \<or> b k = JStr []))
   \<and> (\<forall>k. fst (post_feedback S2N now b st) = Err400 k \<longrightarrow>
         snd (post_feedback S2N now b st) = st \<and> k \<in> set required
         \<and> (b k = JUndefined \<or> b k = JNull \<or> b k = JStr []))"
proof (intro conjI allI impI)
  show "(\<exists>k. fst (post_feedback S2N now b st) = Err400 k) \<longleftrightarrow>
      (\<exists>k\<in>set required. b k = JUndefined \<or> b k = JNull \<or> b k = JStr [])"
    using first_missing_None [of b required]
    by (simp add: post_feedback_400_iff is_missing_def)
next
  fix k assume h: "fst (post_feedback S2N now b st) = Err400 k"
  then have fm: "first_missing b required = Some k"
    by (auto simp: post_feedback_def split: option.splits sum.splits if_splits)
  then show "snd (post_feedback S2N now b st) = st" by (simp add: post_feedback_def)
  from fm show "k \<in> set required" using first_missing_Some by blast
  from fm show "b k = JUndefined \<or> b k = JNull \<or> b k = JStr []"
    using first_missing_Some [of b required k] by (simp add: is_missing_def)
qed

text \<open>C3, amended, at an input: the example with \<open>project: null\<close> is answered 400.\<close>

theorem validation_rejects_exactly_missing_fields_witness:
  "''project'' \<in> set required \<and> no_project_body ''project'' = JNull
   \<and> fst (post_feedback decimal_S2N example_time no_project_body []) = Err400 ''project''
   \<and> snd (post_feedback decimal_S2N example_time no_project_body []) = []"
proof -
  have r: "fst (post_feedback decimal_S2N example_time no_project_body []) = Err400 ''project''"
    by (simp add: post_eval no_project_body_def example_body_def js_def)
  have m: "''project'' \<in> set required \<and> no_project_body ''project'' = JNull"
    by (simp add: required_def no_project_body_def)
  from validation_rejects_exactly_missing_fields
         [of decimal_S2N example_time no_project_body "[]"] r m
  show ?thesis by blast
qed

text \<open>
  C8. After a submission answered 200 the table has one more record, and in it each of
  the five optional columns is NULL when the submitted value is absent or falsy, is never
  the empty string, and is the submitted string, untrimmed, when that is not empty.
\<close>

theorem optional_fields_null_or_nonempty:
  assumes "post_feedback S2N now b st = (Ok200, st')"
  shows "\<exists>r. st' = st @ [r] \<and>
     (\<forall>(k, col)\<in>set optional_columns.
        (\<not> truthy (b k) \<longrightarrow> col r = SNull)
        \<and> col r \<noteq> SText []
        \<and> (\<forall>s. b k = JStr s \<longrightarrow> s \<noteq> [] \<longrightarrow> col r = SText s))"
proof -
  from assms have "try_insert S2N now b st = Inr st'"
    by (simp add: post_feedback_Ok200)
  from try_insert_Inr [OF this] obtain r where r: "st' = st @ [r]"
    "bind_value (or_null (b ''reactivity_suggestion'')) = Inr (reactivity_suggestion r)"
    "bind_value (or_null (b ''deadlines_suggestion'')) = Inr (deadlines_suggestion r)"
    "bind_value (or_null (b ''deliverables_suggestion'')) = Inr (deliverables_suggestion r)"
    "bind_value (or_null (b ''professionalism_suggestion'')) = Inr (professionalism_suggestion r)"
    "bind_value (or_null (b ''global_comment'')) = Inr (global_comment r)"
    by blast
  show ?thesis
    using r(1) bind_or_null [OF r(2)] bind_or_null [OF r(3)] bind_or_null [OF r(4)]
      bind_or_null [OF r(5)] bind_or_null [OF r(6)]
    by (simp add: optional_columns_def)
qed


text \<open>
  C8, at an input: an empty suggestion is stored as NULL, one with spaces around it as
  it is.
\<close>

theorem optional_fields_null_or_nonempty_witness:
  "fst (post_feedback decimal_S2N example_time suggestion_body []) = Ok200
   \<and> map reactivity_suggestion (snd (post_feedback decimal_S2N example_time suggestion_body []))
       = [SNull]
   \<and> map deadlines_suggestion (snd (post_feedback decimal_S2N example_time suggestion_body []))
       = [SText (js ''  more updates '')]
   \<and> map global_comment (snd (post_feedback decimal_S2N example_time suggestion_body []))
       = [SNull]"
proof -
  let ?res = "post_feedback decimal_S2N example_time suggestion_body []"
  have ok: "fst ?res = Ok200"
    by (simp add: post_eval suggestion_body_def example_body_def js_def trim_def isWhiteSpace_def)
  then have "?res = (Ok200, snd ?res)" by (metis prod.collapse)
  from optional_fields_null_or_nonempty [OF this] obtain r where
    r: "snd ?res = [r]"
    and c: "\<forall>(k, col)\<in>set optional_columns.
        (\<not> truthy (suggestion_body k) \<longrightarrow> col r = SNull)
        \<and> col r \<noteq> SText []
        \<and> (\<forall>s. suggestion_body k = JStr s \<longrightarrow> s \<noteq> [] \<longrightarrow> col r = SText s)"
    by auto
  from c have "reactivity_suggestion r = SNull"
    "deadlines_suggestion r = SText (js ''  more updates '')" "global_comment r = SNull"
    by (simp_all add: optional_columns_def suggestion_body_def example_body_def js_def)
  with ok r show ?thesis by simp
qed

section \<open>Monthly statistics\<close>

text \<open>
  C2 as stated fails: the averages are doubles. For three responses with ratings
  (1, 1, 1, 1), (1, 1, 2, 2) and (1, 1, 2, 2) the report has the averages 1, 1 and twice
  the double nearest to 5/3, whose mean is \<open>12009599006321323 / 2 ^ 53\<close>, and the
  avg_total \<open>6004799503160661 / 2 ^ 52\<close>, the double nearest to 4/3, which is smaller.
\<close>

theorem avg_total_differs_from_mean_of_returned_averages:
  "get_stats decimal_S2N rounding_store (QString (js ''2026-01'')) = Stats200 rounding_report
   \<and> projects rounding_report = [rounding_row]
   \<and> avg_total rounding_row = 6004799503160661 / 2 ^ 52
   \<and> (avg_reactivity rounding_row + avg_deadlines rounding_row + avg_deliverables rounding_row
        + avg_professionalism rounding_row) / 4 = 12009599006321323 / 2 ^ 53
   \<and> avg_total rounding_row \<noteq>
       (avg_reactivity rounding_row + avg_deadlines rounding_row + avg_deliverables rounding_row
        + avg_professionalism rounding_row) / 4"
  using rounding_report_eq by (simp add: rounding_report_def rounding_row_def)

text \<open>
  C2, amended. In every report, for each project whose responses in the interval have
  whole-number ratings with absolute values summing to less than \<open>2 ^ 53\<close>: each of the
  four dimension averages is the double nearest to the exact mean of that dimension, and
  avg_total is the double nearest to the arithmetic mean of those four exact means, which
  is a quarter of the exact mean of the raw total scores.
\<close>

theorem avg_total_rounds_mean_of_dimension_means:
  assumes "get_stats S2N st q = Stats200 rp"
  shows "\<forall>p\<in>set (projects rp).
     whole_ratings (responses_of rp st p) \<and> rating_mass (responses_of rp st p) < 2 ^ 53 \<longrightarrow>
       avg_reactivity p = double_round (mean (map reactivity (responses_of rp st p)))
     \<and> avg_deadlines p = double_round (mean (map deadlines (responses_of rp st p)))
     \<and> avg_deliverables p = double_round (mean (map deliverables (responses_of rp st p)))
     \<and> avg_professionalism p = double_round (mean (map professionalism (responses_of rp st p)))
     \<and> avg_total p =
         double_round
          ((mean (map reactivity (responses_of rp st p))
            + mean (map deadlines (responses_of rp st p))
            + mean (map deliverables (responses_of rp st p))
            + mean (map professionalism (responses_of rp st p))) / 4)
     \<and> avg_total p = double_round (mean_raw_total (responses_of rp st p) / 4)"
proof (intro ballI impI)
  fix p
  assume p: "p \<in> set (projects rp)"
    and h: "whole_ratings (responses_of rp st p) \<and> rating_mass (responses_of rp st p) < 2 ^ 53"
  let ?g = "responses_of rp st p"
  from get_stats_200 [OF assms] obtain start end' where
    rp: "rp_start rp = start" "rp_end rp = end'" "projects rp = select_stats start end' st"
    by auto
  from p rp have "p = aggregate (ps_project p) (group_of (ps_project p) (in_range start end' st))"
    using select_stats_row by simp
  then have eq: "p = aggregate (ps_project p) ?g"
    by (simp add: responses_of_def rp)
  from h have w: "whole_ratings ?g" and m: "rating_mass ?g < 2 ^ 53" by simp_all
  have d: "AVG (map reactivity ?g) = double_round (mean (map reactivity ?g))"
    "AVG (map deadlines ?g) = double_round (mean (map deadlines ?g))"
    "AVG (map deliverables ?g) = double_round (mean (map deliverables ?g))"
    "AVG (map professionalism ?g) = double_round (mean (map professionalism ?g))"
    using dimension_whole [OF w] dimension_mass [of ?g] m
    by (simp_all add: AVG_whole)
  have a: "avg_reactivity p = AVG (map reactivity ?g)"
    "avg_deadlines p = AVG (map deadlines ?g)"
    "avg_deliverables p = AVG (map deliverables ?g)"
    "avg_professionalism p = AVG (map professionalism ?g)"
    "avg_total p = AVG (map score ?g)"
    by (subst eq, simp add: aggregate_def)+
  show "avg_reactivity p = double_round (mean (map reactivity ?g))
     \<and> avg_deadlines p = double_round (mean (map deadlines ?g))
     \<and> avg_deliverables p = double_round (mean (map deliverables ?g))
     \<and> avg_professionalism p = double_round (mean (map professionalism ?g))
     \<and> avg_total p =
         double_round
          ((mean (map reactivity ?g) + mean (map deadlines ?g) + mean (map deliverables ?g)
            + mean (map professionalism ?g)) / 4)
     \<and> avg_total p = double_round (mean_raw_total ?g / 4)"
    unfolding a d AVG_scores [OF w m] mean_raw_total_eq by simp
qed

text \<open>
  C2, amended, at an input: for the three responses above the mean of the four exact
  means is 4/3 and avg_total is the double nearest to it, as avg_deliverables is the
  double nearest to 5/3.
\<close>

theorem avg_total_rounds_mean_of_dimension_means_witness:
  "rounding_row \<in> set (projects rounding_report)
   \<and> whole_ratings (responses_of rounding_report rounding_store rounding_row)
   \<and> rating_mass (responses_of rounding_report rounding_store rounding_row) < 2 ^ 53
   \<and> mean_raw_total (responses_of rounding_report rounding_store rounding_row) / 4 = 4 / 3
   \<and> avg_total rounding_row = double_round (4 / 3)
   \<and> avg_deliverables rounding_row = double_round (5 / 3)"
proof -
  let ?g = "responses_of rounding_report rounding_store rounding_row"
  have m: "rounding_row \<in> set (projects rounding_report)"
    by (simp add: rounding_report_def)
  have w: "whole_ratings ?g" "rating_mass ?g < 2 ^ 53"
    unfolding rounding_responses unfolding rounding_store_eq
    by (simp_all add: whole_ratings_def rating_mass_def is_whole_def)
  have v: "mean_raw_total ?g / 4 = 4 / 3" "mean (map deliverables ?g) = 5 / 3"
    unfolding rounding_responses unfolding rounding_store_eq
    by (simp_all add: mean_raw_total_def mean_def)
  from avg_total_rounds_mean_of_dimension_means [OF rounding_report_eq] m w
  have "avg_deliverables rounding_row = double_round (mean (map deliverables ?g))
     \<and> avg_total rounding_row = double_round (mean_raw_total ?g / 4)"
    by blast
  then have k: "avg_deliverables rounding_row = double_round (5 / 3)
     \<and> avg_total rounding_row = double_round (4 / 3)"
    unfolding v .
  from m w v(1) k show ?thesis by blast
qed

text \<open>
  C5. In every report and for every project row of it, the recommendations that the action
  plan lists for the project contain the string of a dimension exactly once when the
  average of that dimension is below 4, strictly, and not at all otherwise; they contain
  nothing but the four fixed strings; and a project whose four averages are all at least 4
  is the project of no entry of the action plan.
\<close>

theorem threshold_rules:
  assumes "get_stats S2N st q = Stats200 rp"
  shows "\<forall>r\<in>set (projects rp).
     count_list (plan_recommendations rp (ps_project r)) reco_reactivity
        = (if avg_reactivity r < 4 then 1 else 0)
     \<and> count_list (plan_recommendations rp (ps_project r)) reco_deadlines
        = (if avg_deadlines r < 4 then 1 else 0)
     \<and> count_list (plan_recommendations rp (ps_project r)) reco_deliverables
        = (if avg_deliverables r < 4 then 1 else 0)
     \<and> count_list (plan_recommendations rp (ps_project r)) reco_professionalism
        = (if avg_professionalism r < 4 then 1 else 0)
     \<and> set (plan_recommendations rp (ps_project r))
        \<subseteq> {reco_reactivity, reco_deadlines, reco_deliverables, reco_professionalism}
     \<and> (4 \<le> avg_reactivity r \<and> 4 \<le> avg_deadlines r \<and> 4 \<le> avg_deliverables r
          \<and> 4 \<le> avg_professionalism r \<longrightarrow>
            ps_project r \<notin> set (map ap_project (action_plan rp)))"
proof
  fix r assume r: "r \<in> set (projects rp)"
  note eq = plan_recommendations_row [OF assms r]
  have "ps_project r \<notin> set (map ap_project (action_plan rp))"
    if "4 \<le> avg_reactivity r \<and> 4 \<le> avg_deadlines r \<and> 4 \<le> avg_deliverables r
          \<and> 4 \<le> avg_professionalism r"
  proof
    assume "ps_project r \<in> set (map ap_project (action_plan rp))"
    then obtain a where a: "a \<in> set (action_plan rp)" "ap_project a = ps_project r"
      by auto
    from get_stats_200 [OF assms] have "action_plan rp = action_loop (projects rp) []"
      by auto
    with a(1) have "recommendations a \<noteq> []"
      by (auto simp: action_loop_eq)
    with a have "plan_recommendations rp (ps_project r) \<noteq> []"
      by (auto simp: plan_recommendations_def)
    with eq that show False
      by (simp add: recommendations_for_empty)
  qed
  then show "count_list (plan_recommendations rp (ps_project r)) reco_reactivity
        = (if avg_reactivity r < 4 then 1 else 0)
     \<and> count_list (plan_recommendations rp (ps_project r)) reco_deadlines
        = (if avg_deadlines r < 4 then 1 else 0)
     \<and> count_list (plan_recommendations rp (ps_project r)) reco_deliverables
        = (if avg_deliverables r < 4 then 1 else 0)
     \<and> count_list (plan_recommendations rp (ps_project r)) reco_professionalism
        = (if avg_professionalism r < 4 then 1 else 0)
     \<and> set (plan_recommendations rp (ps_project r))
        \<subseteq> {reco_reactivity, reco_deadlines, reco_deliverables, reco_professionalism}
     \<and> (4 \<le> avg_reactivity r \<and> 4 \<le> avg_deadlines r \<and> 4 \<le> avg_deliverables r
          \<and> 4 \<le> avg_professionalism r \<longrightarrow>
            ps_project r \<notin> set (map ap_project (action_plan rp)))"
    unfolding eq using count_recommendations [of r] set_recommendations [of r] by blast
qed

text \<open>
  C5, at an input: in the sample report App, with four averages of 5, is absent from the
  action plan, and Website, with a reactivity average of 3 and a deliverables average of
  exactly 4, has the reactivity recommendation and not the deliverables one.
\<close>

theorem threshold_rules_witness:
  "app_row \<in> set (projects sample_report) \<and> website_row \<in> set (projects sample_report)
   \<and> js ''App'' \<notin> set (map ap_project (action_plan sample_report))
   \<and> count_list (plan_recommendations sample_report (js ''Website'')) reco_reactivity = 1
   \<and> count_list (plan_recommendations sample_report (js ''Website'')) reco_deliverables = 0"
proof -
  have m: "app_row \<in> set (projects sample_report)" "website_row \<in> set (projects sample_report)"
    by (simp_all add: sample_report_def)
  have v: "4 \<le> avg_reactivity app_row \<and> 4 \<le> avg_deadlines app_row
     \<and> 4 \<le> avg_deliverables app_row \<and> 4 \<le> avg_professionalism app_row"
    "avg_reactivity website_row < 4" "\<not> avg_deliverables website_row < 4"
    "ps_project app_row = js ''App''" "ps_project website_row = js ''Website''"
    by (simp_all add: app_row_def website_row_def)
  from threshold_rules [OF sample_report_eq] m v show ?thesis
    by (metis (full_types))
qed



text \<open>
  C9. In every report the projects of the action plan are, in the same order, the projects
  of the project list that have at least one dimension average strictly below 4.
\<close>

theorem action_plan_lists_projects_below_threshold_in_order:
  assumes "get_stats S2N st q = Stats200 rp"
  shows "map ap_project (action_plan rp) =
     map ps_project
       (filter (\<lambda>r. avg_reactivity r < 4 \<or> avg_deadlines r < 4 \<or> avg_deliverables r < 4
                    \<or> avg_professionalism r < 4) (projects rp))"
proof -
  from get_stats_200 [OF assms] obtain rows where
    "projects rp = rows" "action_plan rp = action_loop rows []"
    by auto
  then show ?thesis
    by (simp add: action_loop_eq recommendations_for_empty comp_def)
qed

text \<open>C9, at an input: of Website and App, the sample action plan has Website only.\<close>

theorem action_plan_lists_projects_below_threshold_in_order_witness:
  "map ps_project (projects sample_report) = [js ''Website'', js ''App'']
   \<and> map ap_project (action_plan sample_report) = [js ''Website'']"
  using action_plan_lists_projects_below_threshold_in_order [OF sample_report_eq]
  by (simp add: sample_report_def website_row_def app_row_def)

text \<open>
  C7. When the example submission is handled at any instant of January 2026 on the empty
  table, it is answered 200, and the report for \<open>2026-01\<close> then has exactly one project,
  Website, with responses 1, avg_reactivity 2 and avg_total 4.25, and an action plan of
  exactly one entry, for Website, whose recommendations are exactly the reactivity
  string. (The two parts of \<open>2026-01\<close> are read as the numbers 2026 and 1.)
\<close>

theorem example_january_report:
  assumes "S2N (js ''2026'') = Some 2026" and "S2N (js ''01'') = Some 1"
    and "now = iso_text 2026 1 d h mi s ms"
    and "1 \<le> d" "d \<le> 31" "h < 24" "mi < 60" "s < 60" "ms < 1000"
  shows "\<exists>st. post_feedback S2N now example_body [] = (Ok200, st)
    \<and> get_stats S2N st (QString (js ''2026-01'')) =
        Stats200
         \<lparr>rp_month = js ''2026-01'',
          rp_start = js ''2026-01-01T00:00:00.000Z'',
          rp_end = js ''2026-02-01T00:00:00.000Z'',
          projects =
            [\<lparr>ps_project = js ''Website'', responses = 1, avg_reactivity = 2,
              avg_deadlines = 5, avg_deliverables = 5, avg_professionalism = 5,
              avg_total = 4.25\<rparr>],
          action_plan =
            [\<lparr>ap_project = js ''Website'', recommendations = [reco_reactivity]\<rparr>]\<rparr>"
proof -
  let ?r = "\<lparr>fb_id = 1, created_at = now, email = js ''a@x.com'',
       client_name = js ''Acme'', project = js ''Website'',
       reactivity = 2, reactivity_suggestion = SNull,
       deadlines = 5, deadlines_suggestion = SNull,
       deliverables = 5, deliverables_suggestion = SNull,
       professionalism = 5, professionalism_suggestion = SNull,
       global_comment = SNull\<rparr>"
  let ?start = "js ''2026-01-01T00:00:00.000Z''"
  let ?end = "js ''2026-02-01T00:00:00.000Z''"
  let ?row = "\<lparr>ps_project = js ''Website'', responses = 1, avg_reactivity = 2,
              avg_deadlines = 5, avg_deliverables = 5, avg_professionalism = 5,
              avg_total = 4.25\<rparr>"
  have post: "post_feedback S2N now example_body [] = (Ok200, [?r])"
    by (simp add: post_eval example_body_def js_def trim_def isWhiteSpace_def)
  have inside: "text_le ?start now" "text_less now ?end"
    unfolding assms(3) using january_contains [OF assms(4-9)] by blast+
  then have rows: "select_stats ?start ?end [?r] = [?row]"
    by (simp add: select_stats_def in_range_def group_of_def aggregate_def double_eval)
  have plan: "action_loop [?row] [] =
      [\<lparr>ap_project = js ''Website'', recommendations = [reco_reactivity]\<rparr>]"
    by (simp add: recommendations_for_def push_if_def threshold_def)
  have ne: "js ''2026-01'' \<noteq> []" by (simp add: js_def)
  have "get_stats S2N [?r] (QString (js ''2026-01'')) =
      Stats200 \<lparr>rp_month = js ''2026-01'', rp_start = ?start, rp_end = ?end,
        projects = [?row],
        action_plan = [\<lparr>ap_project = js ''Website'', recommendations = [reco_reactivity]\<rparr>]\<rparr>"
    by (rule get_stats_string [OF ne january_any_S2N [OF assms(1,2)] rows plan])
  with post show ?thesis by blast
qed

text \<open>C7, at an input: the submission handled on 15 January 2026 at 10:30 UTC.\<close>

theorem example_january_report_witness:
  "decimal_S2N (js ''2026'') = Some 2026 \<and> decimal_S2N (js ''01'') = Some 1
   \<and> example_time = iso_text 2026 1 15 10 30 0 0
   \<and> get_stats decimal_S2N (snd (post_feedback decimal_S2N example_time example_body []))
        (QString (js ''2026-01'')) =
        Stats200
         \<lparr>rp_month = js ''2026-01'',
          rp_start = js ''2026-01-01T00:00:00.000Z'',
          rp_end = js ''2026-02-01T00:00:00.000Z'',
          projects =
            [\<lparr>ps_project = js ''Website'', responses = 1, avg_reactivity = 2,
              avg_deadlines = 5, avg_deliverables = 5, avg_professionalism = 5,
              avg_total = 4.25\<rparr>],
          action_plan =
            [\<lparr>ap_project = js ''Website'', recommendations = [reco_reactivity]\<rparr>]\<rparr>"
proof -
  have p: "decimal_S2N (js ''2026'') = Some 2026" "decimal_S2N (js ''01'') = Some 1"
    by (simp_all add: string_eval number_eval)
  have t: "example_time = iso_text 2026 1 15 10 30 0 0"
    by (simp add: example_time_def iso_text_def iso_year_def pad_2 pad_3 pad_4 digit_def js_def)
  from example_january_report [OF p t] p t show ?thesis by auto
qed

section \<open>The month parameter\<close>

text \<open>
  C4 as stated fails: the month \<open>abc\<close> is present, so it is not answered 400;
  \<open>monthRange\<close> makes an invalid date of it, \<open>toISOString\<close> throws a RangeError and
  the handler does not catch it.
\<close>

theorem unparseable_month_throws:
  "get_stats decimal_S2N [] (QString (js ''abc'')) = Uncaught RangeError_invalid_time"
  by (simp add: get_stats_def date_eval string_eval number_eval)

text \<open>
  C4, amended. A request for statistics is answered 400 exactly when the month parameter
  is absent or the empty string; no other value of it is answered 400.
\<close>

theorem month_rejected_iff_absent_or_empty:
  "get_stats S2N st q = Stats400 \<longleftrightarrow> q = QMissing \<or> q = QString []"
  by (auto simp: get_stats_def Let_def split: query_value.splits sum.splits)

text \<open>
  C4, amended, at inputs: no month and an empty month are answered 400, the month
  \<open>2026-01\<close> is not.
\<close>

theorem month_rejected_iff_absent_or_empty_witness:
  "get_stats decimal_S2N sample_store QMissing = Stats400
   \<and> get_stats decimal_S2N sample_store (QString []) = Stats400
   \<and> get_stats decimal_S2N sample_store (QString (js ''2026-01'')) \<noteq> Stats400"
proof -
  have "js ''2026-01'' \<noteq> []" by (simp add: js_def)
  then show ?thesis
    using month_rejected_iff_absent_or_empty [of decimal_S2N sample_store QMissing]
      month_rejected_iff_absent_or_empty [of decimal_S2N sample_store "QString []"]
      month_rejected_iff_absent_or_empty [of decimal_S2N sample_store "QString (js ''2026-01'')"]
    by simp
qed

text \<open>
  C10 as stated fails: \<open>275760-13\<close> has the form Y-M with M outside 1 to 12, but its
  rolled-over month, January 275761, lies after the last instant a Date can hold;
  \<open>toISOString\<close> throws and the request is not answered 200.
\<close>

theorem month_beyond_date_range_throws:
  "get_stats decimal_S2N [] (QString (js ''275760-13'')) = Uncaught RangeError_invalid_time"
  by (simp add: get_stats_def date_eval string_eval number_eval)

text \<open>
  C10, amended. Let the month be \<open>Y-M\<close> with both parts read as whole numbers, M within
  1 to 12 or not, a year Y from 0 to 99 standing for 1900 + Y. When the first instants of
  month M and of month M + 1 of that year, after the carry of the months into the year,
  are both within the range of Date, the request is answered 200, with \<open>start\<close> the first
  instant of month \<open>(M - 1) mod 12 + 1\<close> of year \<open>Y + (M - 1) div 12\<close> and \<open>end\<close> that of
  the month after it, and with the projects selected on that interval. So month 13 of
  2026 is January 2027.
\<close>

theorem month_rollover:
  assumes "split_dash month = [ys, ms]"
    and "S2N ys = Some (of_int Y)" and "S2N ms = Some (of_int M)"
    and "in_time_range (full_year Y + (M - 1) div 12) ((M - 1) mod 12)"
    and "in_time_range (full_year Y + M div 12) (M mod 12)"
  shows "\<exists>rp. get_stats S2N st (QString month) = Stats200 rp
    \<and> rp_start rp = first_of_month (full_year Y + (M - 1) div 12) ((M - 1) mod 12 + 1)
    \<and> rp_end rp = first_of_month (full_year Y + M div 12) (M mod 12 + 1)
    \<and> projects rp = select_stats (rp_start rp) (rp_end rp) st"
proof -
  have s: "Date_UTC (Some (of_int Y)) (Some (of_int M - 1)) =
      Some (full_year Y + (M - 1) div 12, (M - 1) mod 12)"
    using assms(4)
    by (simp add: Date_UTC_def trunc_of_int trunc_of_int_minus_1 full_year_def Let_def)
  have e: "Date_UTC (Some (of_int Y)) (Some (of_int M)) =
      Some (full_year Y + M div 12, M mod 12)"
    using assms(5)
    by (simp add: Date_UTC_def trunc_of_int full_year_def Let_def)
  have n: "nat ((M - 1) mod 12) + 1 = nat ((M - 1) mod 12 + 1)"
    "nat (M mod 12) + 1 = nat (M mod 12 + 1)"
    by (simp_all add: nat_add_distrib)
  have mr: "monthRange S2N month =
      Inr (first_of_month (full_year Y + (M - 1) div 12) ((M - 1) mod 12 + 1),
           first_of_month (full_year Y + M div 12) (M mod 12 + 1))"
    unfolding monthRange_def assms(1)
    by (simp add: assms(2,3) element_1 s e n first_of_month_def bind_exn_def Let_def
        del: One_nat_def)
  from get_stats_string [OF split_dash_not_Nil [OF assms(1)] mr refl refl]
  show ?thesis by simp
qed

text \<open>
  C10, amended, at an input: \<open>2026-13\<close> is answered 200 with the interval from
  2027-01-01 to 2027-02-01.
\<close>

theorem month_rollover_witness:
  "split_dash (js ''2026-13'') = [js ''2026'', js ''13'']
   \<and> decimal_S2N (js ''2026'') = Some (of_int 2026) \<and> decimal_S2N (js ''13'') = Some (of_int 13)
   \<and> in_time_range 2027 0 \<and> in_time_range 2027 1
   \<and> (case get_stats decimal_S2N sample_store (QString (js ''2026-13'')) of
         Stats200 rp \<Rightarrow> rp_start rp = js ''2027-01-01T00:00:00.000Z''
            \<and> rp_end rp = js ''2027-02-01T00:00:00.000Z''
       | _ \<Rightarrow> False)"
proof -
  have a: "split_dash (js ''2026-13'') = [js ''2026'', js ''13'']"
    by (simp add: js_def)
  have b: "decimal_S2N (js ''2026'') = Some (of_int 2026)"
    "decimal_S2N (js ''13'') = Some (of_int 13)"
    by (simp_all add: string_eval number_eval)
  have c: "in_time_range (full_year 2026 + (13 - 1) div 12) ((13 - 1) mod 12)"
    "in_time_range (full_year 2026 + 13 div 12) (13 mod 12)"
    by (simp_all add: in_time_range_def full_year_def)
  have d: "in_time_range 2027 0" "in_time_range 2027 1"
    by (simp_all add: in_time_range_def)
  have f: "first_of_month (full_year 2026 + (13 - 1) div 12) ((13 - 1) mod 12 + 1)
       = js ''2027-01-01T00:00:00.000Z''"
    "first_of_month (full_year 2026 + 13 div 12) (13 mod 12 + 1) = js ''2027-02-01T00:00:00.000Z''"
    by (simp_all add: first_of_month_def full_year_def iso_text_def iso_year_def pad_2 pad_3
        pad_4 digit_def js_def)
  from month_rollover [OF a b c, of sample_store] obtain rp where
    "get_stats decimal_S2N sample_store (QString (js ''2026-13'')) = Stats200 rp"
    "rp_start rp = js ''2027-01-01T00:00:00.000Z''"
    "rp_end rp = js ''2027-02-01T00:00:00.000Z''"
    unfolding f by blast
  with a b d show ?thesis by simp
qed

end
